theory Spec2Isabelle
  imports Main "HOL-Library.Sublist"
begin

section \<open>Text and bytes\<close>

text \<open>
  A Python \<^verbatim>\<open>str\<close> is a sequence of code points, a \<^verbatim>\<open>bytes\<close> object a sequence of
  octets. HOL's \<^typ>\<open>char\<close> is an octet, so \<^typ>\<open>string\<close> serves as \<^verbatim>\<open>bytes\<close>, and
  a \<^verbatim>\<open>str\<close> is a list of code points. \<open>py_str\<close> reads an octet string as the
  \<^verbatim>\<open>str\<close> with the same code points: it is how the literals of the source are
  written below, and it is the ISO-8859-1 decoding that the base class applies to the
  request line before it sets \<^verbatim>\<open>self.path\<close>.
\<close>

type_synonym pystr = "nat list"

type_synonym bytes = string

definition py_str :: "string \<Rightarrow> pystr" where
  "py_str s = map of_char s"

datatype error =
    UnicodeEncodeError nat
  | TypeError
  | ValueError
  | FormatNotModelled
  | OverflowError
  | OSError

subsection \<open>\<^verbatim>\<open>str.encode()\<close>: UTF-8, strict\<close>

text \<open>
  \<^verbatim>\<open>html.encode()\<close> encodes as UTF-8 with the \<^verbatim>\<open>strict\<close> error handler: a surrogate
  code point (U+D800 to U+DFFF) raises \<^verbatim>\<open>UnicodeEncodeError\<close>. No \<^verbatim>\<open>str\<close> holds a
  value above U+10FFFF; the model refuses such a number in the same way.
\<close>

definition encodable :: "nat \<Rightarrow> bool" where
  "encodable c = (c < 0xD800 \<or> (0xDFFF < c \<and> c < 0x110000))"

definition utf8_bytes :: "nat \<Rightarrow> bytes" where
  "utf8_bytes c =
     (if c < 0x80 then [char_of c]
      else if c < 0x800 then [char_of (0xC0 + c div 64), char_of (0x80 + c mod 64)]
      else if c < 0x10000 then
        [char_of (0xE0 + c div 4096), char_of (0x80 + c div 64 mod 64),
         char_of (0x80 + c mod 64)]
      else
        [char_of (0xF0 + c div 262144), char_of (0x80 + c div 4096 mod 64),
         char_of (0x80 + c div 64 mod 64), char_of (0x80 + c mod 64)])"

definition utf8 :: "pystr \<Rightarrow> bytes" where
  "utf8 s = concat (map utf8_bytes s)"

definition encode :: "pystr \<Rightarrow> error + bytes" where
  "encode s =
     (case find (\<lambda>c. \<not> encodable c) s of
        Some c \<Rightarrow> Inl (UnicodeEncodeError c)
      | None \<Rightarrow> Inr (utf8 s))"

subsection \<open>\<^verbatim>\<open>str(n)\<close> and zero padding\<close>

function decimal :: "nat \<Rightarrow> pystr" where
  "decimal n = (if n < 10 then [48 + n] else decimal (n div 10) @ [48 + n mod 10])"
  by pat_completeness auto
termination
  by (relation "measure id") auto

declare decimal.simps [simp del]

definition str_int :: "int \<Rightarrow> pystr" where
  "str_int i = (if i < 0 then 45 # decimal (nat (- i)) else decimal (nat i))"

definition zfill :: "nat \<Rightarrow> pystr \<Rightarrow> pystr" where
  "zfill w s = replicate (w - length s) 48 @ s"

section \<open>The clock\<close>

text \<open>
  \<^verbatim>\<open>datetime.now()\<close> returns the host's local time as a naive \<^verbatim>\<open>datetime\<close>. The
  record below holds its fields; \<open>valid_datetime\<close> is the invariant of the Python
  class (\<^verbatim>\<open>MINYEAR = 1\<close>, \<^verbatim>\<open>MAXYEAR = 9999\<close>, a day that exists in its month).
\<close>

record datetime =
  year :: nat
  month :: nat
  day :: nat
  hour :: nat
  minute :: nat
  second :: nat
  microsecond :: nat

definition is_leap :: "nat \<Rightarrow> bool" where
  "is_leap y = (y mod 4 = 0 \<and> (y mod 100 \<noteq> 0 \<or> y mod 400 = 0))"

definition days_in_month :: "nat \<Rightarrow> nat \<Rightarrow> nat" where
  "days_in_month y m =
     (if m = 2 then (if is_leap y then 29 else 28)
      else if m = 4 \<or> m = 6 \<or> m = 9 \<or> m = 11 then 30 else 31)"

definition valid_datetime :: "datetime \<Rightarrow> bool" where
  "valid_datetime d =
     (1 \<le> year d \<and> year d \<le> 9999 \<and> 1 \<le> month d \<and> month d \<le> 12 \<and>
      1 \<le> day d \<and> day d \<le> days_in_month (year d) (month d) \<and>
      hour d < 24 \<and> minute d < 60 \<and> second d < 60 \<and> microsecond d < 1000000)"

text \<open>
  \<^verbatim>\<open>strftime\<close>, for the directives the program uses (\<^verbatim>\<open>%Y %m %d %H %M %S\<close>, and
  \<^verbatim>\<open>%%\<close>); every other character of the format is copied. \<^verbatim>\<open>%Y\<close> is the year with
  century, four digits; the other five are two digits, zero padded.
\<close>

fun strftime :: "string \<Rightarrow> datetime \<Rightarrow> pystr" where
  "strftime [] d = []"
| "strftime [c] d = [of_char c]"
| "strftime (c # k # fs) d =
     (if c \<noteq> CHR ''%'' then of_char c # strftime (k # fs) d
      else if k = CHR ''Y'' then zfill 4 (decimal (year d)) @ strftime fs d
      else if k = CHR ''m'' then zfill 2 (decimal (month d)) @ strftime fs d
      else if k = CHR ''d'' then zfill 2 (decimal (day d)) @ strftime fs d
      else if k = CHR ''H'' then zfill 2 (decimal (hour d)) @ strftime fs d
      else if k = CHR ''M'' then zfill 2 (decimal (minute d)) @ strftime fs d
      else if k = CHR ''S'' then zfill 2 (decimal (second d)) @ strftime fs d
      else if k = CHR ''%'' then of_char k # strftime fs d
      else of_char c # strftime (k # fs) d)"

declare strftime.simps [simp del]

text \<open>The shape \<^verbatim>\<open>YYYY-MM-DD HH:MM:SS\<close>: a digit at each letter, the separators as written.\<close>

definition is_digit :: "nat \<Rightarrow> bool" where
  "is_digit c = (48 \<le> c \<and> c \<le> 57)"

fun matches_shape :: "string \<Rightarrow> pystr \<Rightarrow> bool" where
  "matches_shape [] [] = True"
| "matches_shape (p # ps) (c # cs) =
     ((if p \<in> set ''YMDHS'' then is_digit c else c = of_char p) \<and> matches_shape ps cs)"
| "matches_shape _ _ = False"

definition is_timestamp :: "pystr \<Rightarrow> bool" where
  "is_timestamp s = matches_shape ''YYYY-MM-DD HH:MM:SS'' s"

text \<open>Two readings fall in the same clock second when they agree down to the second.\<close>

definition same_second :: "datetime \<Rightarrow> datetime \<Rightarrow> bool" where
  "same_second a b =
     (year a = year b \<and> month a = month b \<and> day a = day b \<and>
      hour a = hour b \<and> minute a = minute b \<and> second a = second b)"

subsection \<open>The timestamp as the specification words it\<close>

text \<open>
  The text \<^verbatim>\<open>YYYY-MM-DD HH:MM:SS\<close> of a reading, written out octet by octet from the
  words of the specification: four digits of the year, two of each other field, the
  separators between them. It is not used by the model of the code; the theorems
  compare what the code writes with it.
\<close>

definition digit_octet :: "nat \<Rightarrow> char" where
  "digit_octet n = char_of (48 + n)"

definition spec_timestamp :: "datetime \<Rightarrow> string" where
  "spec_timestamp d =
     [digit_octet (year d div 1000), digit_octet (year d div 100 mod 10),
      digit_octet (year d div 10 mod 10), digit_octet (year d mod 10), CHR ''-'',
      digit_octet (month d div 10), digit_octet (month d mod 10), CHR ''-'',
      digit_octet (day d div 10), digit_octet (day d mod 10), CHR '' '',
      digit_octet (hour d div 10), digit_octet (hour d mod 10), CHR '':'',
      digit_octet (minute d div 10), digit_octet (minute d mod 10), CHR '':'',
      digit_octet (second d div 10), digit_octet (second d mod 10)]"

text \<open>
  UTF-8 as it reads for the characters of ISO-8859-1: a character below U+0080 is its
  own octet, any other is two octets. Stated apart from \<open>utf8_bytes\<close>, to compare the
  body with.
\<close>

definition spec_utf8_latin1 :: "string \<Rightarrow> bytes" where
  "spec_utf8_latin1 s =
     concat (map (\<lambda>c. if of_char c < (128::nat) then [c]
                        else [char_of (192 + of_char c div (64::nat)),
                              char_of (128 + of_char c mod (64::nat))]) s)"

section \<open>Standard output and the clock as state\<close>

text \<open>
  The program's world: the text written to standard output so far, the clock as the
  sequence of values that successive calls of \<^verbatim>\<open>datetime.now()\<close> return (a call
  takes the next one), and the ports the host lets the process bind. Standard output
  is kept as text; its encoding is taken to have every character that is printed, as
  UTF-8 has for what a request line can hold.
\<close>

record world =
  stdout :: pystr
  clock :: "nat \<Rightarrow> datetime"
  clock_reads :: nat
  can_bind :: "int \<Rightarrow> bool"

definition print :: "pystr \<Rightarrow> world \<Rightarrow> world" where
  "print s w = w\<lparr>stdout := stdout w @ s @ [10]\<rparr>"

definition datetime_now :: "world \<Rightarrow> datetime \<times> world" where
  "datetime_now w = (clock w (clock_reads w), w\<lparr>clock_reads := Suc (clock_reads w)\<rparr>)"

subsection \<open>\<^verbatim>\<open>repr\<close> of a \<^verbatim>\<open>str\<close> of ISO-8859-1 characters\<close>

text \<open>
  Single quotes, unless the text has a single quote and no double quote; the quote and
  the backslash are escaped, tab, newline and return are written with a letter, and a
  character that is not printable (a control character, U+007F to U+00A0, U+00AD) is
  written as a backslash, an x and two hexadecimal digits.
\<close>

definition hex_digit :: "nat \<Rightarrow> char" where
  "hex_digit n = (if n < 10 then char_of (48 + n) else char_of (87 + n))"

definition repr_printable :: "nat \<Rightarrow> bool" where
  "repr_printable n = ((0x20 \<le> n \<and> n < 0x7F) \<or> (0xA1 \<le> n \<and> n \<le> 0xFF \<and> n \<noteq> 0xAD))"

definition repr_quote :: "string \<Rightarrow> char" where
  "repr_quote s = (if CHR 0x27 \<in> set s \<and> CHR 0x22 \<notin> set s then CHR 0x22 else CHR 0x27)"

definition repr_char :: "char \<Rightarrow> char \<Rightarrow> string" where
  "repr_char q c =
     (if c = q \<or> c = CHR 0x5C then [CHR 0x5C, c]
      else if c = CHR 0x09 then [CHR 0x5C, CHR ''t'']
      else if c = CHR 0x0A then [CHR 0x5C, CHR ''n'']
      else if c = CHR 0x0D then [CHR 0x5C, CHR ''r'']
      else if repr_printable (of_char c) then [c]
      else [CHR 0x5C, CHR ''x'', hex_digit (of_char c div 16), hex_digit (of_char c mod 16)])"

definition py_repr :: "string \<Rightarrow> string" where
  "py_repr s = (let q = repr_quote s in q # concat (map (repr_char q) s) @ [q])"

subsection \<open>The operator \<^verbatim>\<open>format % args\<close>\<close>

text \<open>
  The values given to the operator: a \<^verbatim>\<open>str\<close>, an \<^verbatim>\<open>int\<close>, or any other object that
  is not a number, given by the two texts that \<^verbatim>\<open>str()\<close> and \<^verbatim>\<open>repr()\<close> return for it
  (such as the exception that the base class logs when a request times out). The
  \<^verbatim>\<open>repr\<close> of a \<^verbatim>\<open>str\<close> is modelled for the characters up to U+00FF; beyond them it
  depends on the Unicode character database.
\<close>

datatype pyval = PyStr pystr | PyInt int | PyObj pystr pystr

fun py_text :: "pyval \<Rightarrow> pystr" where
  "py_text (PyStr s) = s"
| "py_text (PyInt i) = str_int i"
| "py_text (PyObj s r) = s"

fun py_repr_text :: "pyval \<Rightarrow> pystr option" where
  "py_repr_text (PyStr s) =
     (if list_all (\<lambda>c. c < 256) s then Some (py_str (py_repr (map char_of s))) else None)"
| "py_repr_text (PyInt i) = Some (str_int i)"
| "py_repr_text (PyObj s r) = Some r"

text \<open>
  Printf-style interpolation of a tuple of arguments, for the conversions in the
  formats that \<^verbatim>\<open>BaseHTTPRequestHandler\<close> passes to the logging hook, which are
  \<^verbatim>\<open>'"%s" %s %s'\<close>, \<^verbatim>\<open>"code %d, message %s"\<close> and \<^verbatim>\<open>"Request timed out: %r"\<close>: the
  conversions \<^verbatim>\<open>%s\<close>, \<^verbatim>\<open>%d\<close>, \<^verbatim>\<open>%r\<close> and \<^verbatim>\<open>%%\<close>, without flags. Too few or too
  many arguments, or a value that is not a number given to \<^verbatim>\<open>%d\<close>, raise
  \<^verbatim>\<open>TypeError\<close>; a format that ends in \<^verbatim>\<open>%\<close> raises \<^verbatim>\<open>ValueError\<close>. Any other
  conversion is outside this fragment: the result \<open>FormatNotModelled\<close> marks that the
  model does not say what the operator does there, and no statement below rests on it.
\<close>

fun prepend :: "pystr \<Rightarrow> error + pystr \<Rightarrow> error + pystr" where
  "prepend s (Inl e) = Inl e"
| "prepend s (Inr t) = Inr (s @ t)"

fun py_format :: "pystr \<Rightarrow> pyval list \<Rightarrow> error + pystr" where
  "py_format [] args = (if args = [] then Inr [] else Inl TypeError)"
| "py_format [c] args =
     (if c = 37 then Inl ValueError else prepend [c] (py_format [] args))"
| "py_format (c # k # fs) args =
     (if c \<noteq> 37 then prepend [c] (py_format (k # fs) args)
      else if k = 37 then prepend [37] (py_format fs args)
      else if k = 115 then
        (case args of
           [] \<Rightarrow> Inl TypeError
         | a # rest \<Rightarrow> prepend (py_text a) (py_format fs rest))
      else if k = 114 then
        (case args of
           [] \<Rightarrow> Inl TypeError
         | a # rest \<Rightarrow>
             (case py_repr_text a of
                None \<Rightarrow> Inl FormatNotModelled
              | Some t \<Rightarrow> prepend t (py_format fs rest)))
      else if k = 100 then
        (case args of
           [] \<Rightarrow> Inl TypeError
         | PyInt i # rest \<Rightarrow> prepend (str_int i) (py_format fs rest)
         | a # rest \<Rightarrow> Inl TypeError)
      else Inl FormatNotModelled)"

section \<open>The request handler\<close>

text \<open>
  The handler object \<^verbatim>\<open>self\<close>. The request attributes are those the base class
  \<^verbatim>\<open>BaseHTTPRequestHandler\<close> sets before it calls \<^verbatim>\<open>do_GET\<close>. The response is recorded
  as the handler hands it to the base class: the code given to \<^verbatim>\<open>send_response\<close>, the
  pairs given to \<^verbatim>\<open>send_header\<close>, whether \<^verbatim>\<open>end_headers\<close> was called, and the bytes
  written to \<^verbatim>\<open>self.wfile\<close>. How the base class puts them on the wire is library
  code and is not part of this development: it adds its own \<^verbatim>\<open>Server\<close> and \<^verbatim>\<open>Date\<close>
  headers, and for a request line without a protocol version (HTTP/0.9, which knows
  neither status line nor headers) it sends only what is written to \<^verbatim>\<open>self.wfile\<close>.
\<close>

record handler =
  client_address :: "string \<times> nat"
  command :: pystr
  path :: pystr
  request_version :: pystr
  requestline :: pystr
  headers :: "(pystr \<times> pystr) list"
  rfile :: bytes
  response_code :: "nat option"
  response_headers :: "(pystr \<times> pystr) list"
  headers_ended :: bool
  wfile :: bytes

subsection \<open>\<^verbatim>\<open>SimpleHandler.log_message\<close>\<close>

text \<open>
  \<^verbatim>\<open>print(f"[{datetime.now().strftime('%Y-%m-%d %H:%M:%S')}] {format % args}")\<close>:
  the clock is read first, then the message is interpolated (which may raise, and then
  nothing is printed), then one \<^verbatim>\<open>print\<close> writes the text and a newline.
\<close>

definition log_message :: "pystr \<Rightarrow> pyval list \<Rightarrow> world \<Rightarrow> error option \<times> world" where
  "log_message format args w =
     (let (t, w1) = datetime_now w in
      case py_format format args of
        Inl e \<Rightarrow> (Some e, w1)
      | Inr m \<Rightarrow>
          (None,
           print (py_str ''['' @ strftime ''%Y-%m-%d %H:%M:%S'' t @ py_str ''] '' @ m) w1))"

subsection \<open>The base class methods that \<^verbatim>\<open>do_GET\<close> calls\<close>

text \<open>
  From \<^verbatim>\<open>http.server\<close>: \<^verbatim>\<open>send_response(code)\<close> first logs the request,
  \<^verbatim>\<open>self.log_request(code)\<close>, which is
  \<^verbatim>\<open>self.log_message('"%s" %s %s', self.requestline, str(code), str(size))\<close> with
  \<^verbatim>\<open>size = '-'\<close>, and then buffers the status line. \<^verbatim>\<open>log_error\<close> passes its
  arguments on to \<^verbatim>\<open>log_message\<close>.
\<close>

definition log_request :: "nat \<Rightarrow> handler \<Rightarrow> world \<Rightarrow> error option \<times> world" where
  \<open>log_request code self w =
     log_message (py_str ''"%s" %s %s'')
       [PyStr (requestline self), PyStr (decimal code), PyStr (py_str ''-'')] w\<close>

definition log_error :: "pystr \<Rightarrow> pyval list \<Rightarrow> world \<Rightarrow> error option \<times> world" where
  "log_error format args w = log_message format args w"

definition send_response ::
  "nat \<Rightarrow> handler \<Rightarrow> world \<Rightarrow> error option \<times> handler \<times> world" where
  "send_response code self w =
     (case log_request code self w of
        (Some e, w1) \<Rightarrow> (Some e, self, w1)
      | (None, w1) \<Rightarrow> (None, self\<lparr>response_code := Some code\<rparr>, w1))"

definition send_header :: "pystr \<Rightarrow> pystr \<Rightarrow> handler \<Rightarrow> handler" where
  "send_header keyword v self =
     self\<lparr>response_headers := response_headers self @ [(keyword, v)]\<rparr>"

definition end_headers :: "handler \<Rightarrow> handler" where
  "end_headers self = self\<lparr>headers_ended := True\<rparr>"

definition wfile_write :: "bytes \<Rightarrow> handler \<Rightarrow> handler" where
  "wfile_write b self = self\<lparr>wfile := wfile self @ b\<rparr>"

subsection \<open>\<^verbatim>\<open>SimpleHandler.do_GET\<close>\<close>

text \<open>
  The f-string of \<^verbatim>\<open>do_GET\<close>, line by line (\<^verbatim>\<open>{{\<close> and \<^verbatim>\<open>}}\<close> of the source are
  single braces in the value). It is cut at its two substitutions: \<open>html_head\<close> ends
  where \<^verbatim>\<open>{self.path}\<close> stands, \<open>html_mid\<close> where the formatted time stands.
\<close>

definition html_head :: pystr where
  \<open>html_head = concat
     [py_str ''\<newline>'',
      py_str ''        <!DOCTYPE html>\<newline>'',
      py_str ''        <html>\<newline>'',
      py_str ''        <head>\<newline>'',
      py_str ''            <title>Simple HTTP Server</title>\<newline>'',
      py_str ''            <style>\<newline>'',
      py_str ''                body {\<newline>'',
      py_str ''                    font-family: Arial, sans-serif;\<newline>'',
      py_str ''                    max-width: 800px;\<newline>'',
      py_str ''                    margin: 50px auto;\<newline>'',
      py_str ''                    padding: 20px;\<newline>'',
      py_str ''                    background-color: #f0f0f0;\<newline>'',
      py_str ''                }\<newline>'',
      py_str ''                .container {\<newline>'',
      py_str ''                    background-color: white;\<newline>'',
      py_str ''                    padding: 30px;\<newline>'',
      py_str ''                    border-radius: 10px;\<newline>'',
      py_str ''                    box-shadow: 0 2px 10px rgba(0,0,0,0.1);\<newline>'',
      py_str ''                }\<newline>'',
      py_str ''                h1 { color: #333; }\<newline>'',
      py_str ''                .info { color: #666; margin-top: 20px; }\<newline>'',
      py_str ''                .emoji { font-size: 3em; }\<newline>'',
      py_str ''            </style>\<newline>'',
      py_str ''        </head>\<newline>'',
      py_str ''        <body>\<newline>'',
      py_str ''            <div class="container">\<newline>'',
      py_str ''                <div class="emoji">'' @ [0x1F44B] @ py_str ''</div>\<newline>'',
      py_str ''                <h1>Hello from Simple HTTP Server!</h1>\<newline>'',
      py_str ''                <p>This is a basic Python HTTP server.</p>\<newline>'',
      py_str ''                <div class="info">\<newline>'',
      py_str ''                    <p><strong>Path:</strong> '']\<close>

definition html_mid :: pystr where
  \<open>html_mid = concat
     [py_str ''</p>\<newline>'',
      py_str ''                    <p><strong>Time:</strong> '']\<close>

definition html_tail :: pystr where
  \<open>html_tail = concat
     [py_str ''</p>\<newline>'',
      py_str ''                </div>\<newline>'',
      py_str ''            </div>\<newline>'',
      py_str ''        </body>\<newline>'',
      py_str ''        </html>\<newline>'',
      py_str ''        '']\<close>

definition html :: "pystr \<Rightarrow> pystr \<Rightarrow> pystr" where
  "html self_path now = html_head @ self_path @ html_mid @ now @ html_tail"

text \<open>
  \<^verbatim>\<open>do_GET\<close>: status 200, the content type header, the end of the headers; then the
  page is rendered, with a second reading of the clock, encoded and written. An
  exception leaves the effects that came before it in place.
\<close>

definition do_GET :: "handler \<Rightarrow> world \<Rightarrow> error option \<times> handler \<times> world" where
  "do_GET self w =
     (case send_response 200 self w of
        (Some e, self1, w1) \<Rightarrow> (Some e, self1, w1)
      | (None, self1, w1) \<Rightarrow>
          (let self2 = send_header (py_str ''Content-type'') (py_str ''text/html'') self1;
               self3 = end_headers self2;
               (t, w2) = datetime_now w1;
               page = html (path self3) (strftime ''%Y-%m-%d %H:%M:%S'' t)
           in case encode page of
                Inl e \<Rightarrow> (Some e, self3, w2)
              | Inr b \<Rightarrow> (None, wfile_write b self3, w2)))"

section \<open>The hosting runtime\<close>

text \<open>
  What the base class and \<^verbatim>\<open>HTTPServer\<close> do around the handler, as far as the program's
  behaviour depends on it. A request is taken as \<^verbatim>\<open>parse_request\<close> leaves it: the words
  of the request line, decoded as ISO-8859-1, so each character is one octet.
\<close>

record request =
  req_client :: "string \<times> nat"
  req_command :: string
  req_path :: string
  req_version :: string
  req_line :: string
  req_headers :: "(string \<times> string) list"
  req_body :: bytes

text \<open>A handler object is made for each request; nothing of an earlier one is kept.\<close>

definition SimpleHandler :: "request \<Rightarrow> handler" where
  "SimpleHandler r =
     \<lparr>client_address = req_client r,
      command = py_str (req_command r),
      path = py_str (req_path r),
      request_version = py_str (req_version r),
      requestline = py_str (req_line r),
      headers = map (\<lambda>(k, v). (py_str k, py_str v)) (req_headers r),
      rfile = req_body r,
      response_code = None,
      response_headers = [],
      headers_ended = False,
      wfile = []\<rparr>"

subsection \<open>\<^verbatim>\<open>send_error\<close> and the dispatch on the method\<close>

text \<open>
  From \<^verbatim>\<open>http.server\<close>, \<^verbatim>\<open>send_error(code, message)\<close>:
  \<^verbatim>\<open>self.log_error("code %d, message %s", code, message)\<close>, then
  \<^verbatim>\<open>self.send_response(code, message)\<close> (which logs again, through \<^verbatim>\<open>log_request\<close>),
  \<^verbatim>\<open>self.send_header('Connection', 'close')\<close>, and for a code from 200 on other than
  204, 205 and 304 the HTML error document with its \<^verbatim>\<open>Content-Type\<close> and
  \<^verbatim>\<open>Content-Length\<close> headers, written unless the method is \<^verbatim>\<open>HEAD\<close>. The text of that
  document is library data; it is the parameter \<open>doc\<close>.
\<close>

type_synonym error_document = "nat \<Rightarrow> pystr \<Rightarrow> bytes"

definition send_error ::
  "error_document \<Rightarrow> nat \<Rightarrow> pystr \<Rightarrow> handler \<Rightarrow> world \<Rightarrow> error option \<times> handler \<times> world" where
  "send_error doc code message self w =
     (case log_error (py_str ''code %d, message %s'') [PyInt (int code), PyStr message] w of
        (Some e, w1) \<Rightarrow> (Some e, self, w1)
      | (None, w1) \<Rightarrow>
          (case send_response code self w1 of
             (Some e, self1, w2) \<Rightarrow> (Some e, self1, w2)
           | (None, self1, w2) \<Rightarrow>
               (let self2 = send_header (py_str ''Connection'') (py_str ''close'') self1;
                    has_body = (200 \<le> code \<and> code \<noteq> 204 \<and> code \<noteq> 205 \<and> code \<noteq> 304);
                    body = (if has_body then doc code message else []);
                    self3 =
                      (if has_body then
                         send_header (py_str ''Content-Length'') (decimal (length body))
                           (send_header (py_str ''Content-Type'')
                              (py_str ''text/html;charset=utf-8'') self2)
                       else self2);
                    self4 = end_headers self3
                in (None,
                    if command self \<noteq> py_str ''HEAD'' \<and> body \<noteq> []
                    then wfile_write body self4 else self4,
                    w2))))"

text \<open>
  \<^verbatim>\<open>handle_one_request\<close>, after \<^verbatim>\<open>parse_request\<close>: the method \<^verbatim>\<open>'do_' + self.command\<close>
  is called if the handler has it, and \<^verbatim>\<open>SimpleHandler\<close> has \<^verbatim>\<open>do_GET\<close> only; otherwise
  \<^verbatim>\<open>self.send_error(501, "Unsupported method (%r)" % self.command)\<close>.
\<close>

definition handle_one_request ::
  "error_document \<Rightarrow> request \<Rightarrow> world \<Rightarrow> error option \<times> handler \<times> world" where
  "handle_one_request doc r w =
     (let self = SimpleHandler r in
      if req_command r = ''GET'' then do_GET self w
      else send_error doc 501
             (py_str (''Unsupported method ('' @ py_repr (req_command r) @ '')'')) self w)"

text \<open>
  \<^verbatim>\<open>serve_forever\<close> handles the requests one after the other, on one thread, until the
  process is interrupted; \<open>rs\<close> are the requests that arrive before that. An exception
  of a handler is reported by the server and the loop goes on.
\<close>

fun serve_forever ::
  "error_document \<Rightarrow> request list \<Rightarrow> world \<Rightarrow> (error option \<times> handler) list \<times> world" where
  "serve_forever doc [] w = ([], w)"
| "serve_forever doc (r # rs) w =
     (case handle_one_request doc r w of
        (e, self, w1) \<Rightarrow>
          (case serve_forever doc rs w1 of (out, w2) \<Rightarrow> ((e, self) # out, w2)))"

subsection \<open>\<^verbatim>\<open>run_server\<close>\<close>

record httpd =
  server_address :: "string \<times> int"

text \<open>
  The constructor binds the listening socket: a port outside 0 to 65535 raises
  \<^verbatim>\<open>OverflowError\<close>, a port the host refuses raises \<^verbatim>\<open>OSError\<close>.
\<close>

definition HTTPServer :: "string \<times> int \<Rightarrow> world \<Rightarrow> error + httpd" where
  "HTTPServer address w =
     (if snd address < 0 \<or> 65535 < snd address then Inl OverflowError
      else if can_bind w (snd address) then Inr \<lparr>server_address = address\<rparr>
      else Inl OSError)"

definition run_server ::
  "error_document \<Rightarrow> int \<Rightarrow> request list \<Rightarrow> world \<Rightarrow>
     (error + httpd \<times> (error option \<times> handler) list) \<times> world" where
  "run_server doc port rs w =
     (case HTTPServer ([], port) w of
        Inl e \<Rightarrow> (Inl e, w)
      | Inr httpd \<Rightarrow>
          (let w1 = print (py_str ''Server running on http://localhost:'' @ str_int port) w;
               w2 = print (py_str ''Press Ctrl+C to stop the server'') w1
           in case serve_forever doc rs w2 of (out, w3) \<Rightarrow> (Inr (httpd, out), w3)))"

text \<open>
  \<^verbatim>\<open>def run_server(port=8080)\<close> and the entry point \<^verbatim>\<open>run_server()\<close>: the program reads
  no argument and no environment variable, so the port is the default.
\<close>

definition default_port :: int where
  "default_port = 8080"

definition main ::
  "error_document \<Rightarrow> request list \<Rightarrow> world \<Rightarrow>
     (error + httpd \<times> (error option \<times> handler) list) \<times> world" where
  "main doc rs w = run_server doc default_port rs w"

section \<open>Example inputs\<close>

definition example_time :: datetime where
  "example_time =
     \<lparr>year = 2024, month = 1, day = 2, hour = 3, minute = 4, second = 5, microsecond = 6\<rparr>"

definition steady_clock :: "nat \<Rightarrow> datetime" where
  "steady_clock i = example_time"

definition ticking_clock :: "nat \<Rightarrow> datetime" where
  "ticking_clock i = example_time\<lparr>second := i mod 60\<rparr>"

definition any_port :: "int \<Rightarrow> bool" where
  "any_port p = True"

definition example_world :: world where
  "example_world = \<lparr>stdout = [], clock = steady_clock, clock_reads = 0, can_bind = any_port\<rparr>"

definition ticking_world :: world where
  "ticking_world = \<lparr>stdout = [], clock = ticking_clock, clock_reads = 0, can_bind = any_port\<rparr>"

definition no_document :: error_document where
  "no_document code message = []"

definition get_root :: request where
  "get_root =
     \<lparr>req_client = (''127.0.0.1'', 50000), req_command = ''GET'', req_path = ''/'',
      req_version = ''HTTP/1.1'', req_line = ''GET / HTTP/1.1'', req_headers = [],
      req_body = []\<rparr>"

definition get_query :: request where
  "get_query =
     \<lparr>req_client = (''127.0.0.1'', 50001), req_command = ''GET'', req_path = ''/foo/bar?x=1'',
      req_version = ''HTTP/1.1'', req_line = ''GET /foo/bar?x=1 HTTP/1.1'',
      req_headers = [(''Host'', ''localhost:8080'')], req_body = []\<rparr>"

definition get_markup :: request where
  "get_markup =
     \<lparr>req_client = (''127.0.0.1'', 50002), req_command = ''GET'',
      req_path = ''/<script>alert(1)</script>'', req_version = ''HTTP/1.1'',
      req_line = ''GET /<script>alert(1)</script> HTTP/1.1'', req_headers = [],
      req_body = []\<rparr>"

definition post_root :: request where
  "post_root =
     \<lparr>req_client = (''127.0.0.1'', 50003), req_command = ''POST'', req_path = ''/'',
      req_version = ''HTTP/1.1'', req_line = ''POST / HTTP/1.1'',
      req_headers = [(''Content-Length'', ''3'')], req_body = ''a=b''\<rparr>"

definition get_root_again :: request where
  "get_root_again =
     \<lparr>req_client = (''192.0.2.7'', 40000), req_command = ''GET'', req_path = ''/'',
      req_version = ''HTTP/1.0'', req_line = ''GET / HTTP/1.0'',
      req_headers = [(''User-Agent'', ''probe''), (''Cookie'', ''k=v'')],
      req_body = ''ignored''\<rparr>"

definition later_world :: world where
  "later_world =
     \<lparr>stdout = py_str ''earlier output\<newline>'', clock = steady_clock, clock_reads = 7,
      can_bind = any_port\<rparr>"

definition get_accented :: request where
  "get_accented =
     \<lparr>req_client = (''127.0.0.1'', 50004), req_command = ''GET'',
      req_path = [CHR ''/'', CHR 0xE9], req_version = ''HTTP/1.1'',
      req_line = [CHR ''G'', CHR ''E'', CHR ''T'', CHR '' '', CHR ''/'', CHR 0xE9, CHR '' '',
                  CHR ''H'', CHR ''T'', CHR ''T'', CHR ''P'', CHR ''/'', CHR ''1'', CHR ''.'',
                  CHR ''1''],
      req_headers = [], req_body = []\<rparr>"

definition get_empty_path :: request where
  "get_empty_path =
     \<lparr>req_client = (''127.0.0.1'', 50005), req_command = ''GET'', req_path = [],
      req_version = ''HTTP/1.1'', req_line = ''GET  HTTP/1.1'', req_headers = [],
      req_body = []\<rparr>"

section \<open>Encoding\<close>

lemma utf8_append: "utf8 (xs @ ys) = utf8 xs @ utf8 ys"
  by (simp add: utf8_def)

lemma encode_iff: "encode s = Inr b \<longleftrightarrow> list_all encodable s \<and> b = utf8 s"
  by (auto simp: encode_def find_None_iff list_all_iff split: option.splits dest: find_Some_iff[THEN iffD1])

lemma encode_encodable: "list_all encodable s \<Longrightarrow> encode s = Inr (utf8 s)"
  by (simp add: encode_iff)

lemma encodable_of_char: "encodable (of_char c)"
proof -
  have "of_char c < (256::nat)" by simp
  then show ?thesis unfolding encodable_def by linarith
qed

lemma encodable_py_str: "list_all encodable (py_str s)"
  by (simp add: py_str_def list_all_iff encodable_of_char)

lemma utf8_ascii: "list_all (\<lambda>c. of_char c < (128::nat)) s \<Longrightarrow> utf8 (py_str s) = s"
  by (induction s) (simp_all add: utf8_def py_str_def utf8_bytes_def)

lemma encodable_head: "list_all encodable html_head"
  by (simp add: html_head_def encodable_py_str) (simp add: encodable_def)

lemma encodable_mid: "list_all encodable html_mid"
  by (simp add: html_mid_def encodable_py_str)

lemma encodable_tail: "list_all encodable html_tail"
  by (simp add: html_tail_def encodable_py_str)

section \<open>The formatted time\<close>

lemma decimal_1: "n < 10 \<Longrightarrow> decimal n = [48 + n]"
  by (subst decimal.simps) simp

lemma decimal_2: "10 \<le> n \<Longrightarrow> n < 100 \<Longrightarrow> decimal n = [48 + n div 10, 48 + n mod 10]"
  by (subst decimal.simps) (simp add: decimal_1)

lemma decimal_3:
  "100 \<le> n \<Longrightarrow> n < 1000 \<Longrightarrow> decimal n = [48 + n div 100, 48 + n div 10 mod 10, 48 + n mod 10]"
  by (subst decimal.simps) (simp add: decimal_2 div_mult2_eq[symmetric])

lemma decimal_4:
  "1000 \<le> n \<Longrightarrow> n < 10000 \<Longrightarrow>
   decimal n = [48 + n div 1000, 48 + n div 100 mod 10, 48 + n div 10 mod 10, 48 + n mod 10]"
  by (subst decimal.simps) (simp add: decimal_3 div_mult2_eq[symmetric])

lemma two_digits: "n < 100 \<Longrightarrow> zfill 2 (decimal n) = [48 + n div 10, 48 + n mod 10]"
  by (cases "n < 10") (simp_all add: zfill_def decimal_1 decimal_2)

lemma four_digits:
  "1000 \<le> n \<Longrightarrow> n < 10000 \<Longrightarrow>
   zfill 4 (decimal n) = [48 + n div 1000, 48 + n div 100 mod 10, 48 + n div 10 mod 10, 48 + n mod 10]"
  by (simp add: zfill_def decimal_4)

lemma strftime_unfold:
  "strftime ''%Y-%m-%d %H:%M:%S'' d =
     zfill 4 (decimal (year d)) @ [45] @ zfill 2 (decimal (month d)) @ [45] @
     zfill 2 (decimal (day d)) @ [32] @ zfill 2 (decimal (hour d)) @ [58] @
     zfill 2 (decimal (minute d)) @ [58] @ zfill 2 (decimal (second d))"
  by (simp add: strftime.simps)

lemma days_in_month_le: "days_in_month y m \<le> 31"
  by (simp add: days_in_month_def)

lemma strftime_valid:
  assumes "valid_datetime d" and "1000 \<le> year d"
  shows "strftime ''%Y-%m-%d %H:%M:%S'' d =
     [48 + year d div 1000, 48 + year d div 100 mod 10, 48 + year d div 10 mod 10,
      48 + year d mod 10, 45, 48 + month d div 10, 48 + month d mod 10, 45,
      48 + day d div 10, 48 + day d mod 10, 32, 48 + hour d div 10, 48 + hour d mod 10, 58,
      48 + minute d div 10, 48 + minute d mod 10, 58,
      48 + second d div 10, 48 + second d mod 10]"
proof -
  have "day d \<le> 31"
    using assms(1) days_in_month_le[of "year d" "month d"] by (simp add: valid_datetime_def)
  with assms show ?thesis
    unfolding strftime_unfold by (simp add: valid_datetime_def two_digits four_digits)
qed

lemma mod_10_le: "(n::nat) mod 10 \<le> 9"
proof -
  have "n mod 10 < 10" by simp
  then show ?thesis by linarith
qed

lemma div_10_le: "(n::nat) < 100 \<Longrightarrow> n div 10 \<le> 9"
proof -
  assume "n < 100"
  then have "n div 10 < 10" by (simp add: div_less_iff_less_mult)
  then show ?thesis by linarith
qed

lemma is_timestamp_strftime:
  assumes "valid_datetime d" and "1000 \<le> year d"
  shows "is_timestamp (strftime ''%Y-%m-%d %H:%M:%S'' d)"
proof -
  have d31: "day d \<le> 31"
    using assms(1) days_in_month_le[of "year d" "month d"] by (simp add: valid_datetime_def)
  have y: "year d div 1000 < 10"
    using assms by (simp add: valid_datetime_def div_less_iff_less_mult)
  have lt: "month d < 100" "day d < 100" "hour d < 100" "minute d < 100" "second d < 100"
    using assms d31 by (simp_all add: valid_datetime_def)
  show ?thesis
    unfolding strftime_valid[OF assms] is_timestamp_def
    using y lt by (simp add: is_digit_def mod_10_le div_10_le)
qed

lemma two_digits_inj:
  "a < 100 \<Longrightarrow> b < 100 \<Longrightarrow> a div 10 = b div 10 \<Longrightarrow> a mod 10 = b mod 10 \<Longrightarrow> a = (b::nat)"
  by (metis div_mult_mod_eq)

lemma four_digits_inj:
  assumes "a div 1000 = b div 1000" "a div 100 mod 10 = b div 100 mod 10"
    "a div 10 mod 10 = b div 10 mod 10" "a mod 10 = b mod 10"
  shows "a = (b::nat)"
proof -
  have "a div 100 div 10 = b div 100 div 10" using assms(1) by (simp add: div_mult2_eq[symmetric])
  with assms(2) have h: "a div 100 = b div 100" by (metis div_mult_mod_eq)
  then have "a div 10 div 10 = b div 10 div 10" by (simp add: div_mult2_eq[symmetric])
  with assms(3) have "a div 10 = b div 10" by (metis div_mult_mod_eq)
  with assms(4) show ?thesis by (metis div_mult_mod_eq)
qed

lemma strftime_inj:
  assumes "valid_datetime a" "1000 \<le> year a" "valid_datetime b" "1000 \<le> year b"
  shows "strftime ''%Y-%m-%d %H:%M:%S'' a = strftime ''%Y-%m-%d %H:%M:%S'' b \<longleftrightarrow> same_second a b"
proof
  assume "same_second a b"
  then show "strftime ''%Y-%m-%d %H:%M:%S'' a = strftime ''%Y-%m-%d %H:%M:%S'' b"
    unfolding strftime_unfold by (simp add: same_second_def)
next
  assume eq: "strftime ''%Y-%m-%d %H:%M:%S'' a = strftime ''%Y-%m-%d %H:%M:%S'' b"
  have da: "day a < 100" "day b < 100"
    using assms days_in_month_le[of "year a" "month a"] days_in_month_le[of "year b" "month b"]
    by (simp_all add: valid_datetime_def)
  have lt: "month a < 100" "month b < 100" "hour a < 100" "hour b < 100"
    "minute a < 100" "minute b < 100" "second a < 100" "second b < 100"
    using assms by (simp_all add: valid_datetime_def)
  from eq have e: 
    "year a div 1000 = year b div 1000" "year a div 100 mod 10 = year b div 100 mod 10"
    "year a div 10 mod 10 = year b div 10 mod 10" "year a mod 10 = year b mod 10"
    "month a div 10 = month b div 10" "month a mod 10 = month b mod 10"
    "day a div 10 = day b div 10" "day a mod 10 = day b mod 10"
    "hour a div 10 = hour b div 10" "hour a mod 10 = hour b mod 10"
    "minute a div 10 = minute b div 10" "minute a mod 10 = minute b mod 10"
    "second a div 10 = second b div 10" "second a mod 10 = second b mod 10"
    unfolding strftime_valid[OF assms(1,2)] strftime_valid[OF assms(3,4)] by simp_all
  show "same_second a b"
    unfolding same_second_def
    using four_digits_inj[OF e(1-4)] two_digits_inj[OF lt(1,2) e(5,6)]
      two_digits_inj[OF da e(7,8)] two_digits_inj[OF lt(3,4) e(9,10)]
      two_digits_inj[OF lt(5,6) e(11,12)] two_digits_inj[OF lt(7,8) e(13,14)]
    by simp
qed

lemma decimal_digits: "c \<in> set (decimal n) \<Longrightarrow> 48 \<le> c \<and> c \<le> 57"
proof (induction n arbitrary: c rule: decimal.induct)
  case (1 n)
  show ?case
  proof (cases "n < 10")
    case True
    with "1.prems" show ?thesis by (subst (asm) decimal.simps) simp
  next
    case False
    with "1.prems" have "c \<in> set (decimal (n div 10)) \<or> c = 48 + n mod 10"
      by (subst (asm) decimal.simps) auto
    then show ?thesis
    proof
      assume "c \<in> set (decimal (n div 10))"
      with "1.IH"[OF False] show ?thesis by blast
    next
      assume "c = 48 + n mod 10"
      moreover have "n mod 10 < 10" by simp
      ultimately show ?thesis by linarith
    qed
  qed
qed

lemma zfill_no_newline: "10 \<notin> set (zfill k (decimal n))"
  using decimal_digits[of 10 n] by (auto simp: zfill_def)

lemma strftime_no_newline: "10 \<notin> set (strftime ''%Y-%m-%d %H:%M:%S'' d)"
  unfolding strftime_unfold by (simp add: zfill_no_newline)

section \<open>Logging and the handler\<close>

lemma py_format_request:
  \<open>py_format (py_str ''"%s" %s %s'') [PyStr a, PyStr b, PyStr c] =
     Inr (py_str ''"'' @ a @ py_str ''" '' @ b @ py_str '' '' @ c)\<close>
  by (simp add: py_str_def)

lemma py_format_error:
  "py_format (py_str ''code %d, message %s'') [PyInt i, PyStr m] =
     Inr (py_str ''code '' @ str_int i @ py_str '', message '' @ m)"
  by (simp add: py_str_def)

lemma py_format_timeout:
  "py_format (py_str ''Request timed out: %r'') [PyObj s r] =
     Inr (py_str ''Request timed out: '' @ r)"
  by (simp add: py_str_def)

lemma log_message_ok:
  "py_format format args = Inr m \<Longrightarrow>
   log_message format args w =
     (None, w\<lparr>stdout := stdout w @ py_str ''['' @
                strftime ''%Y-%m-%d %H:%M:%S'' (clock w (clock_reads w)) @ py_str ''] '' @ m @ [10],
              clock_reads := Suc (clock_reads w)\<rparr>)"
  by (simp add: log_message_def datetime_now_def print_def)

lemma send_response_ok:
  \<open>send_response code self w =
     (None, self\<lparr>response_code := Some code\<rparr>,
      w\<lparr>stdout := stdout w @ py_str ''['' @
           strftime ''%Y-%m-%d %H:%M:%S'' (clock w (clock_reads w)) @ py_str ''] "'' @
           requestline self @ py_str ''" '' @ decimal code @ py_str '' -'' @ [10],
        clock_reads := Suc (clock_reads w)\<rparr>)\<close>
  by (simp add: send_response_def log_request_def log_message_ok[OF py_format_request]) (simp add: py_str_def)

lemma strftime_encodable: "list_all encodable (strftime ''%Y-%m-%d %H:%M:%S'' d)"
proof -
  have "\<And>k n. list_all encodable (zfill k (decimal n))"
    using decimal_digits by (fastforce simp: zfill_def list_all_iff encodable_def)
  then show ?thesis
    unfolding strftime_unfold by (simp add: encodable_def)
qed

lemma do_GET_ok:
  assumes "list_all encodable (path self)"
  shows \<open>do_GET self w =
     (None,
      self\<lparr>response_code := Some 200,
           response_headers := response_headers self @ [(py_str ''Content-type'', py_str ''text/html'')],
           headers_ended := True,
           wfile := wfile self @
             utf8 (html (path self) (strftime ''%Y-%m-%d %H:%M:%S'' (clock w (Suc (clock_reads w)))))\<rparr>,
      w\<lparr>stdout := stdout w @ py_str ''['' @
           strftime ''%Y-%m-%d %H:%M:%S'' (clock w (clock_reads w)) @ py_str ''] "'' @
           requestline self @ py_str ''" '' @ decimal 200 @ py_str '' -'' @ [10],
        clock_reads := Suc (Suc (clock_reads w))\<rparr>)\<close>
proof -
  have "list_all encodable (html (path self) (strftime ''%Y-%m-%d %H:%M:%S'' (clock w (Suc (clock_reads w)))))"
    using assms by (simp add: html_def encodable_head encodable_mid encodable_tail strftime_encodable)
  then show ?thesis
    by (simp add: do_GET_def send_response_ok send_header_def end_headers_def wfile_write_def
        datetime_now_def encode_encodable)
qed

section \<open>The page\<close>

lemma py_str_append: "py_str (a @ b) = py_str a @ py_str b"
  by (simp add: py_str_def)

lemma sublist_utf8: "sublist xs ys \<Longrightarrow> sublist (utf8 xs) (utf8 ys)"
proof -
  assume "sublist xs ys"
  then obtain ps ss where "ys = ps @ xs @ ss" by (auto simp: sublist_def)
  then have "utf8 ys = utf8 ps @ utf8 xs @ utf8 ss" by (simp add: utf8_append)
  then show ?thesis unfolding sublist_def by blast
qed

lemma sublist_concat_mem: "x \<in> set xss \<Longrightarrow> sublist a x \<Longrightarrow> sublist a (concat xss)"
proof (induction xss)
  case Nil
  then show ?case by simp
next
  case (Cons y xss)
  show ?case
  proof (cases "x = y")
    case True
    with Cons.prems(2) obtain ps ss where "y = ps @ a @ ss" by (auto simp: sublist_def)
    then have "concat (y # xss) = ps @ a @ (ss @ concat xss)" by simp
    then show ?thesis unfolding sublist_def by blast
  next
    case False
    with Cons have "sublist a (concat xss)" by simp
    then obtain ps ss where "concat xss = ps @ a @ ss" by (auto simp: sublist_def)
    then have "concat (y # xss) = (y @ ps) @ a @ ss" by simp
    then show ?thesis unfolding sublist_def by blast
  qed
qed

lemma suffix_concat_last: "xss \<noteq> [] \<Longrightarrow> suffix a (last xss) \<Longrightarrow> suffix a (concat xss)"
proof -
  assume ne: "xss \<noteq> []" and s: "suffix a (last xss)"
  from s obtain zs where z: "last xss = zs @ a" by (auto simp: suffix_def)
  from ne have "concat xss = concat (butlast xss) @ last xss"
    by (metis append_butlast_last_id concat.simps(1) concat.simps(2) concat_append append_Nil2)
  with z have "concat xss = (concat (butlast xss) @ zs) @ a" by simp
  then show ?thesis unfolding suffix_def by blast
qed

lemma head_ends: "suffix (py_str ''<p><strong>Path:</strong> '') html_head"
  unfolding html_head_def
  by (rule suffix_concat_last) (simp_all add: py_str_def suffix_def)

lemma mid_starts: "prefix (py_str ''</p>'') html_mid"
  by (simp add: html_mid_def py_str_def)

lemma mid_ends: "suffix (py_str ''<p><strong>Time:</strong> '') html_mid"
  unfolding html_mid_def
  by (rule suffix_concat_last) (simp_all add: py_str_def suffix_def)

lemma tail_starts: "prefix (py_str ''</p>'') html_tail"
  by (simp add: html_tail_def py_str_def)

lemma title_in_head: "sublist (py_str ''<title>Simple HTTP Server</title>'') html_head"
  unfolding html_head_def
proof (rule sublist_concat_mem)
  show "sublist (py_str ''<title>Simple HTTP Server</title>'')
          (py_str ''            <title>Simple HTTP Server</title>\<newline>'')"
    unfolding sublist_def
    by (rule exI[of _ "py_str ''            ''"], rule exI[of _ "py_str ''\<newline>''"])
       (simp add: py_str_def)
qed simp

lemma path_line_in_html:
  "sublist (py_str ''<p><strong>Path:</strong> '' @ p @ py_str ''</p>'') (html p t)"
proof -
  obtain a where a: "html_head = a @ py_str ''<p><strong>Path:</strong> ''"
    using head_ends by (auto simp: suffix_def)
  obtain b where b: "html_mid = py_str ''</p>'' @ b"
    using mid_starts by (auto simp: prefix_def)
  have "html p t = a @ (py_str ''<p><strong>Path:</strong> '' @ p @ py_str ''</p>'') @ (b @ t @ html_tail)"
    by (simp add: html_def a b)
  then show ?thesis unfolding sublist_def by blast
qed

lemma time_line_in_html:
  "sublist (py_str ''<p><strong>Time:</strong> '' @ t @ py_str ''</p>'') (html p t)"
proof -
  obtain a where a: "html_mid = a @ py_str ''<p><strong>Time:</strong> ''"
    using mid_ends by (auto simp: suffix_def)
  obtain b where b: "html_tail = py_str ''</p>'' @ b"
    using tail_starts by (auto simp: prefix_def)
  have "html p t = (html_head @ p @ a) @ (py_str ''<p><strong>Time:</strong> '' @ t @ py_str ''</p>'') @ b"
    by (simp add: html_def a b)
  then show ?thesis unfolding sublist_def by blast
qed

lemma title_in_html: "sublist (py_str ''<title>Simple HTTP Server</title>'') (html p t)"
proof -
  obtain a b where "html_head = a @ py_str ''<title>Simple HTTP Server</title>'' @ b"
    using title_in_head by (auto simp: sublist_def)
  then have "html p t = a @ py_str ''<title>Simple HTTP Server</title>'' @ (b @ p @ html_mid @ t @ html_tail)"
    by (simp add: html_def)
  then show ?thesis unfolding sublist_def by blast
qed

lemma handle_GET:
  assumes "req_command r = ''GET''"
  shows \<open>handle_one_request doc r w =
     (None,
      (SimpleHandler r)\<lparr>response_code := Some 200,
           response_headers := [(py_str ''Content-type'', py_str ''text/html'')],
           headers_ended := True,
           wfile := utf8 (html (py_str (req_path r))
                      (strftime ''%Y-%m-%d %H:%M:%S'' (clock w (Suc (clock_reads w)))))\<rparr>,
      w\<lparr>stdout := stdout w @ py_str ''['' @
           strftime ''%Y-%m-%d %H:%M:%S'' (clock w (clock_reads w)) @ py_str ''] "'' @
           py_str (req_line r) @ py_str ''" '' @ decimal 200 @ py_str '' -'' @ [10],
        clock_reads := Suc (Suc (clock_reads w))\<rparr>)\<close>
proof -
  have "list_all encodable (path (SimpleHandler r))"
    by (simp add: SimpleHandler_def encodable_py_str)
  from do_GET_ok[OF this, of w] assms show ?thesis
    by (simp add: handle_one_request_def) (simp add: SimpleHandler_def)
qed

section \<open>The example inputs are well formed\<close>

lemma example_time_valid: "valid_datetime example_time \<and> 1000 \<le> year example_time"
  by (simp add: example_time_def valid_datetime_def days_in_month_def)

lemma ticking_clock_valid: "valid_datetime (ticking_clock i) \<and> 1000 \<le> year (ticking_clock i)"
  by (simp add: ticking_clock_def example_time_def valid_datetime_def days_in_month_def)

section \<open>Requests with another method, and the serving loop\<close>

lemma handle_other:
  assumes "req_command r \<noteq> ''GET''"
  shows "\<exists>self. handle_one_request doc r w =
     (None, self,
      w\<lparr>stdout := stdout w @ py_str ''['' @
           strftime ''%Y-%m-%d %H:%M:%S'' (clock w (clock_reads w)) @ py_str ''] '' @
           py_str ''code '' @ str_int 501 @ py_str '', message '' @
           py_str (''Unsupported method ('' @ py_repr (req_command r) @ '')'') @ [10] @
           py_str ''['' @
           strftime ''%Y-%m-%d %H:%M:%S'' (clock w (Suc (clock_reads w))) @ py_str ''] '' @
           py_str [CHR 0x22] @ py_str (req_line r) @ py_str [CHR 0x22, CHR '' ''] @ decimal 501 @
           py_str '' -'' @ [10],
        clock_reads := Suc (Suc (clock_reads w))\<rparr>)"
  using assms
  by (simp add: handle_one_request_def send_error_def log_error_def
      log_message_ok[OF py_format_error] send_response_ok Let_def)
     (simp add: SimpleHandler_def py_str_def)

lemma handle_frame:
  "\<exists>self w'. handle_one_request doc r w = (None, self, w') \<and> clock w' = clock w \<and>
     can_bind w' = can_bind w \<and> clock_reads w' = clock_reads w + 2"
proof (cases "req_command r = ''GET''")
  case True
  from handle_GET[OF this, of doc w] show ?thesis by simp
next
  case False
  from handle_other[OF this, of doc w] show ?thesis by auto
qed

lemma serve_forever_frame:
  "serve_forever doc rs w = (out, w1) \<Longrightarrow>
   list_all (\<lambda>(e, self). e = None) out \<and> clock w1 = clock w \<and> can_bind w1 = can_bind w \<and>
   clock_reads w1 = clock_reads w + 2 * length rs \<and> length out = length rs"
proof (induction rs arbitrary: w out w1)
  case Nil
  then show ?case by simp
next
  case (Cons r rs)
  obtain self w' where h: "handle_one_request doc r w = (None, self, w')"
    and f: "clock w' = clock w" "can_bind w' = can_bind w" "clock_reads w' = clock_reads w + 2"
    using handle_frame[of doc r w] by blast
  obtain out' w2 where s: "serve_forever doc rs w' = (out', w2)"
    by (cases "serve_forever doc rs w'")
  from Cons.prems h s have o: "out = (None, self) # out'" and w: "w1 = w2" by simp_all
  from Cons.IH[OF s] f o w show ?case by simp
qed

lemma str_int_8080: "str_int 8080 = py_str ''8080''"
  by (simp add: str_int_def decimal.simps py_str_def)

section \<open>The code's text against the specification's\<close>

lemma utf8_latin1: "utf8 (py_str s) = spec_utf8_latin1 s"
proof (induction s)
  case Nil
  show ?case by (simp add: utf8_def py_str_def spec_utf8_latin1_def)
next
  case (Cons c s)
  have lt: "of_char c < (256::nat)" by simp
  have "utf8_bytes (of_char c) =
      (if of_char c < (128::nat) then [c]
       else [char_of (192 + of_char c div (64::nat)), char_of (128 + of_char c mod (64::nat))])"
  proof -
    from lt have "of_char c < (2048::nat)" by linarith
    then show ?thesis by (simp add: utf8_bytes_def)
  qed
  with Cons show ?case
    by (simp add: utf8_def py_str_def spec_utf8_latin1_def)
qed

lemma digit_code: "n \<le> 9 \<Longrightarrow> of_char (digit_octet n) = 48 + n"
  by (simp add: digit_octet_def)

lemma strftime_spec:
  assumes "valid_datetime d" and "1000 \<le> year d"
  shows "strftime ''%Y-%m-%d %H:%M:%S'' d = py_str (spec_timestamp d)"
proof -
  have d31: "day d \<le> 31"
    using assms(1) days_in_month_le[of "year d" "month d"] by (simp add: valid_datetime_def)
  have y: "year d div 1000 \<le> 9"
  proof -
    have "year d div 1000 < 10"
      using assms by (simp add: valid_datetime_def div_less_iff_less_mult)
    then show ?thesis by linarith
  qed
  have lt: "month d < 100" "day d < 100" "hour d < 100" "minute d < 100" "second d < 100"
    using assms d31 by (simp_all add: valid_datetime_def)
  show ?thesis
    unfolding strftime_valid[OF assms] spec_timestamp_def py_str_def
    using y lt by (simp add: digit_code mod_10_le div_10_le)
qed

lemma spec_timestamp_ascii:
  assumes "valid_datetime d" and "1000 \<le> year d"
  shows "list_all (\<lambda>c. of_char c < (128::nat)) (spec_timestamp d)"
proof -
  have "list_all (\<lambda>c. c < 128) (strftime ''%Y-%m-%d %H:%M:%S'' d)"
    using is_timestamp_strftime[OF assms] unfolding strftime_valid[OF assms] is_timestamp_def
    by (simp add: is_digit_def)
  then show ?thesis
    unfolding strftime_spec[OF assms] by (simp add: py_str_def list_all_iff)
qed

lemma utf8_strftime:
  assumes "valid_datetime d" and "1000 \<le> year d"
  shows "utf8 (strftime ''%Y-%m-%d %H:%M:%S'' d) = spec_timestamp d"
  unfolding strftime_spec[OF assms] by (rule utf8_ascii[OF spec_timestamp_ascii[OF assms]])

lemma spec_timestamp_inj:
  assumes "valid_datetime a" "1000 \<le> year a" "valid_datetime b" "1000 \<le> year b"
  shows "spec_timestamp a = spec_timestamp b \<longleftrightarrow> same_second a b"
proof
  assume "spec_timestamp a = spec_timestamp b"
  then have "strftime ''%Y-%m-%d %H:%M:%S'' a = strftime ''%Y-%m-%d %H:%M:%S'' b"
    by (simp add: strftime_spec[OF assms(1,2)] strftime_spec[OF assms(3,4)])
  with strftime_inj[OF assms] show "same_second a b" by simp
next
  assume "same_second a b"
  with strftime_inj[OF assms]
  have "utf8 (strftime ''%Y-%m-%d %H:%M:%S'' a) = utf8 (strftime ''%Y-%m-%d %H:%M:%S'' b)"
    by simp
  then show "spec_timestamp a = spec_timestamp b"
    by (simp add: utf8_strftime[OF assms(1,2)] utf8_strftime[OF assms(3,4)])
qed

lemma page_octets:
  assumes "valid_datetime d" and "1000 \<le> year d"
  shows "utf8 (html p (strftime ''%Y-%m-%d %H:%M:%S'' d)) =
     utf8 (html_head @ p @ html_mid) @ spec_timestamp d @ utf8 html_tail"
  by (simp add: html_def utf8_append utf8_strftime[OF assms])

lemma time_line_octets:
  assumes "valid_datetime d" and "1000 \<le> year d"
  shows "sublist (''<p><strong>Time:</strong> '' @ spec_timestamp d @ ''</p>'')
           (utf8 (html p (strftime ''%Y-%m-%d %H:%M:%S'' d)))"
proof -
  have a: "utf8 (py_str ''<p><strong>Time:</strong> '') = ''<p><strong>Time:</strong> ''"
    by (rule utf8_ascii) simp
  have b: "utf8 (py_str ''</p>'') = ''</p>''"
    by (rule utf8_ascii) simp
  from sublist_utf8[OF time_line_in_html[of "strftime ''%Y-%m-%d %H:%M:%S'' d" p]]
  show ?thesis
    unfolding utf8_append a b utf8_strftime[OF assms] .
qed

lemma py_str_newline: "CHR 0x0A \<notin> set s \<Longrightarrow> 10 \<notin> set (py_str s)"
proof
  assume n: "CHR 0x0A \<notin> set s" and "10 \<in> set (py_str s)"
  then obtain c where c: "c \<in> set s" and "of_char c = (10::nat)"
    by (auto simp: py_str_def)
  then have "c = char_of (10::nat)" by (metis char_of_char)
  moreover have "(char_of (10::nat) :: char) = CHR 0x0A"
    by (simp add: char_of_def bit_Suc_0_iff)
  ultimately show False using c n by simp
qed

lemma example_stamp: "spec_timestamp example_time = ''2024-01-02 03:04:05''"
  by (simp add: spec_timestamp_def digit_octet_def example_time_def char_of_def bit_Suc_0_iff)

lemma ticking_stamp_1: "spec_timestamp (ticking_clock 1) = ''2024-01-02 03:04:01''"
  by (simp add: spec_timestamp_def digit_octet_def ticking_clock_def example_time_def
      char_of_def bit_Suc_0_iff)

lemma ticking_stamp_3: "spec_timestamp (ticking_clock 3) = ''2024-01-02 03:04:03''"
  by (simp add: spec_timestamp_def digit_octet_def ticking_clock_def example_time_def
      char_of_def bit_Suc_0_iff)

lemma latin1_accented: "spec_utf8_latin1 [CHR ''/'', CHR 0xE9] = [CHR ''/'', CHR 0xC3, CHR 0xA9]"
  by (simp add: spec_utf8_latin1_def char_of_def bit_Suc_0_iff)

lemma path_line_octets:
  "sublist (''<p><strong>Path:</strong> '' @ spec_utf8_latin1 p @ ''</p>'')
     (utf8 (html (py_str p) t))"
proof -
  have a: "spec_utf8_latin1 ''<p><strong>Path:</strong> '' = ''<p><strong>Path:</strong> ''"
    unfolding utf8_latin1[symmetric] by (rule utf8_ascii) simp
  have b: "spec_utf8_latin1 ''</p>'' = ''</p>''"
    unfolding utf8_latin1[symmetric] by (rule utf8_ascii) simp
  from sublist_utf8[OF path_line_in_html[of "py_str p" t]]
  show ?thesis
    unfolding utf8_append utf8_latin1 a b .
qed

lemma title_octets: "sublist ''<title>Simple HTTP Server</title>'' (utf8 (html p t))"
proof -
  have "utf8 (py_str ''<title>Simple HTTP Server</title>'') = ''<title>Simple HTTP Server</title>''"
    by (rule utf8_ascii) simp
  with sublist_utf8[OF title_in_html[of p t]] show ?thesis by simp
qed

section \<open>The response to a GET request\<close>

text \<open>
  Claim C1. For every request path \<open>P\<close>, handling a GET request with path \<open>P\<close> gives
  status 200 and a body that holds \<open>P\<close> as it is, with no escaping. The body is the UTF-8
  encoding of the page text, and that text is \<open>html_head\<close>, then \<open>P\<close>, then the rest: so
  \<open>P\<close> and the line \<^verbatim>\<open><p><strong>Path:</strong> P</p>\<close> stand in the body, encoded,
  and octet for octet when \<open>P\<close> is ASCII. The request path is any octet string, so
  markup in it is reflected.
\<close>

theorem get_reflects_path:
  assumes "req_command r = ''GET''"
    and "handle_one_request doc r w = (e, self, w')"
  shows "e = None \<and> response_code self = Some 200 \<and>
     encode (html_head @ py_str (req_path r) @ html_mid @
             strftime ''%Y-%m-%d %H:%M:%S'' (clock w (Suc (clock_reads w))) @ html_tail)
       = Inr (wfile self) \<and>
     sublist (utf8 (py_str (req_path r))) (wfile self) \<and>
     sublist (utf8 (py_str (''<p><strong>Path:</strong> '' @ req_path r @ ''</p>''))) (wfile self) \<and>
     (list_all (\<lambda>c. of_char c < (128::nat)) (req_path r) \<longrightarrow>
        sublist (''<p><strong>Path:</strong> '' @ req_path r @ ''</p>'') (wfile self))"
proof -
  let ?t = "strftime ''%Y-%m-%d %H:%M:%S'' (clock w (Suc (clock_reads w)))"
  let ?page = "html (py_str (req_path r)) ?t"
  from handle_GET[OF assms(1), of doc w] assms(2)
  have e: "e = None" and c: "response_code self = Some 200" and b: "wfile self = utf8 ?page"
    by auto
  have enc: "list_all encodable ?page"
    by (simp add: html_def encodable_head encodable_mid encodable_tail strftime_encodable
        encodable_py_str)
  have "sublist (py_str (req_path r)) ?page"
    unfolding html_def by (rule sublist_appendI)
  then have whole: "sublist (utf8 (py_str (req_path r))) (wfile self)"
    unfolding b by (rule sublist_utf8)
  have line: "sublist (utf8 (py_str (''<p><strong>Path:</strong> '' @ req_path r @ ''</p>''))) (wfile self)"
    unfolding b py_str_append by (rule sublist_utf8[OF path_line_in_html])
  have ascii: "sublist (''<p><strong>Path:</strong> '' @ req_path r @ ''</p>'') (wfile self)"
    if "list_all (\<lambda>c. of_char c < (128::nat)) (req_path r)"
  proof -
    from that have "list_all (\<lambda>c. of_char c < (128::nat)) (''<p><strong>Path:</strong> '' @ req_path r @ ''</p>'')"
      by simp
    from utf8_ascii[OF this] line show ?thesis by simp
  qed
  from encode_encodable[OF enc] e c whole line ascii show ?thesis
    by (simp add: html_def b)
qed

theorem get_reflects_path_witness:
  "req_command get_markup = ''GET'' \<and>
   sublist ''<p><strong>Path:</strong> /<script>alert(1)</script></p>''
     (wfile (fst (snd (handle_one_request no_document get_markup example_world))))"
  using get_reflects_path[of get_markup no_document example_world
      "fst (handle_one_request no_document get_markup example_world)"
      "fst (snd (handle_one_request no_document get_markup example_world))"
      "snd (snd (handle_one_request no_document get_markup example_world))"]
  by (simp add: get_markup_def)

text \<open>
  Claim C2. For every GET request, whatever its path, the response carries the header
  \<^verbatim>\<open>Content-type\<close> with the value \<^verbatim>\<open>text/html\<close>: it is the one header the handler
  sends, and the header block is ended.
\<close>

theorem get_content_type:
  assumes "req_command r = ''GET''"
    and "handle_one_request doc r w = (e, self, w')"
  shows "response_headers self = [(py_str ''Content-type'', py_str ''text/html'')] \<and>
     map_of (response_headers self) (py_str ''Content-type'') = Some (py_str ''text/html'') \<and>
     headers_ended self"
  using handle_GET[OF assms(1), of doc w] assms(2) by auto

theorem get_content_type_witness:
  "req_command get_query = ''GET'' \<and>
   map_of (response_headers (fst (snd (handle_one_request no_document get_query example_world))))
     (py_str ''Content-type'') = Some (py_str ''text/html'')"
  using get_content_type[of get_query no_document example_world
      "fst (handle_one_request no_document get_query example_world)"
      "fst (snd (handle_one_request no_document get_query example_world))"
      "snd (snd (handle_one_request no_document get_query example_world))"]
  by (simp add: get_query_def)

text \<open>
  Claim C6. A GET request with the path \<^verbatim>\<open>/\<close> gives status 200 and a body that holds
  both \<^verbatim>\<open><title>Simple HTTP Server</title>\<close> and \<^verbatim>\<open><p><strong>Path:</strong> /</p>\<close>.
\<close>

theorem get_root_page:
  assumes "req_command r = ''GET''" and "req_path r = ''/''"
    and "handle_one_request doc r w = (e, self, w')"
  shows "e = None \<and> response_code self = Some 200 \<and>
     sublist ''<title>Simple HTTP Server</title>'' (wfile self) \<and>
     sublist ''<p><strong>Path:</strong> /</p>'' (wfile self)"
proof -
  let ?t = "strftime ''%Y-%m-%d %H:%M:%S'' (clock w (Suc (clock_reads w)))"
  from handle_GET[OF assms(1), of doc w] assms(2,3)
  have e: "e = None" and c: "response_code self = Some 200"
    and b: "wfile self = utf8 (html (py_str ''/'') ?t)"
    by auto
  have "utf8 (py_str ''<title>Simple HTTP Server</title>'') = ''<title>Simple HTTP Server</title>''"
    by (rule utf8_ascii) simp
  with sublist_utf8[OF title_in_html[of "py_str ''/''" ?t]]
  have t: "sublist ''<title>Simple HTTP Server</title>'' (wfile self)"
    by (simp add: b)
  have "utf8 (py_str ''<p><strong>Path:</strong> /</p>'') = ''<p><strong>Path:</strong> /</p>''"
    by (rule utf8_ascii) simp
  with sublist_utf8[OF path_line_in_html[of "py_str ''/''" ?t]]
  have p: "sublist ''<p><strong>Path:</strong> /</p>'' (wfile self)"
    by (simp add: b py_str_def)
  from e c t p show ?thesis by simp
qed

theorem get_root_page_witness:
  "req_command get_root = ''GET'' \<and> req_path get_root = ''/'' \<and>
   sublist ''<title>Simple HTTP Server</title>''
     (wfile (fst (snd (handle_one_request no_document get_root example_world)))) \<and>
   sublist ''<p><strong>Path:</strong> /</p>''
     (wfile (fst (snd (handle_one_request no_document get_root example_world))))"
  using get_root_page[of get_root no_document example_world
      "fst (handle_one_request no_document get_root example_world)"
      "fst (snd (handle_one_request no_document get_root example_world))"
      "snd (snd (handle_one_request no_document get_root example_world))"]
  by (simp add: get_root_def)

section \<open>The time on the page\<close>

text \<open>
  Claim C3. For every GET request the timestamp in the body is the clock value read while
  the page is rendered (the request's second reading; the first goes into the log line),
  formatted as \<^verbatim>\<open>YYYY-MM-DD HH:MM:SS\<close>: the body is the octets of the page up to the
  time, then the digits and separators of that reading as \<open>spec_timestamp\<close> writes
  them out, then the octets of the rest, so the line
  \<^verbatim>\<open><p><strong>Time:</strong> YYYY-MM-DD HH:MM:SS</p>\<close> stands in the body octet for
  octet. The clock is the host's local time as \<^verbatim>\<open>datetime.now()\<close> returns it. Nothing
  stores the value: the clock itself is left as it was and has been read twice, so the
  next request reads later values. The reading is a valid date of a year of four
  digits.
\<close>

theorem get_timestamp_fresh:
  assumes "req_command r = ''GET''"
    and "handle_one_request doc r w = (e, self, w')"
    and "valid_datetime (clock w (Suc (clock_reads w)))"
    and "1000 \<le> year (clock w (Suc (clock_reads w)))"
  shows "wfile self =
       utf8 (html_head @ py_str (req_path r) @ html_mid) @
       spec_timestamp (clock w (Suc (clock_reads w))) @ utf8 html_tail \<and>
     sublist (''<p><strong>Time:</strong> '' @ spec_timestamp (clock w (Suc (clock_reads w))) @
              ''</p>'') (wfile self) \<and>
     strftime ''%Y-%m-%d %H:%M:%S'' (clock w (Suc (clock_reads w))) =
       py_str (spec_timestamp (clock w (Suc (clock_reads w)))) \<and>
     is_timestamp (strftime ''%Y-%m-%d %H:%M:%S'' (clock w (Suc (clock_reads w)))) \<and>
     encode (html (py_str (req_path r))
               (strftime ''%Y-%m-%d %H:%M:%S'' (clock w (Suc (clock_reads w))))) = Inr (wfile self) \<and>
     sublist (utf8 (py_str ''<p><strong>Time:</strong> '' @
                strftime ''%Y-%m-%d %H:%M:%S'' (clock w (Suc (clock_reads w))) @ py_str ''</p>''))
       (wfile self) \<and>
     clock w' = clock w \<and> clock_reads w' = clock_reads w + 2"
proof -
  let ?d = "clock w (Suc (clock_reads w))"
  let ?t = "strftime ''%Y-%m-%d %H:%M:%S'' ?d"
  let ?page = "html (py_str (req_path r)) ?t"
  from handle_GET[OF assms(1), of doc w] assms(2)
  have b: "wfile self = utf8 ?page" and c: "clock w' = clock w"
    and n: "clock_reads w' = clock_reads w + 2"
    by auto
  have enc: "list_all encodable ?page"
    by (simp add: html_def encodable_head encodable_mid encodable_tail strftime_encodable
        encodable_py_str)
  have line: "sublist (utf8 (py_str ''<p><strong>Time:</strong> '' @ ?t @ py_str ''</p>'')) (wfile self)"
    unfolding b by (rule sublist_utf8[OF time_line_in_html])
  have octets: "wfile self = utf8 (html_head @ py_str (req_path r) @ html_mid) @
       spec_timestamp ?d @ utf8 html_tail"
    unfolding b by (rule page_octets[OF assms(3,4)])
  have raw: "sublist (''<p><strong>Time:</strong> '' @ spec_timestamp ?d @ ''</p>'') (wfile self)"
    unfolding b by (rule time_line_octets[OF assms(3,4)])
  from octets raw strftime_spec[OF assms(3,4)] is_timestamp_strftime[OF assms(3,4)]
    encode_encodable[OF enc] line c n
  show ?thesis by (simp add: b)
qed

theorem get_timestamp_fresh_witness:
  "req_command get_root = ''GET'' \<and>
   valid_datetime (clock example_world (Suc (clock_reads example_world))) \<and>
   1000 \<le> year (clock example_world (Suc (clock_reads example_world))) \<and>
   sublist ''<p><strong>Time:</strong> 2024-01-02 03:04:05</p>''
     (wfile (fst (snd (handle_one_request no_document get_root example_world)))) \<and>
   is_timestamp (strftime ''%Y-%m-%d %H:%M:%S'' example_time) \<and>
   clock_reads (snd (snd (handle_one_request no_document get_root example_world))) = 2"
proof -
  let ?x = "handle_one_request no_document get_root example_world"
  have g: "req_command get_root = ''GET''" by (simp add: get_root_def)
  have c: "clock example_world (Suc (clock_reads example_world)) = example_time"
    by (simp add: example_world_def steady_clock_def)
  have v: "valid_datetime (clock example_world (Suc (clock_reads example_world)))"
    and y: "1000 \<le> year (clock example_world (Suc (clock_reads example_world)))"
    using example_time_valid by (simp_all add: c)
  have h: "?x = (fst ?x, fst (snd ?x), snd (snd ?x))" by simp
  note t = get_timestamp_fresh[OF g h v y]
  from t have "sublist (''<p><strong>Time:</strong> '' @
      spec_timestamp (clock example_world (Suc (clock_reads example_world))) @ ''</p>'')
      (wfile (fst (snd ?x)))"
    by blast
  then have s: "sublist ''<p><strong>Time:</strong> 2024-01-02 03:04:05</p>'' (wfile (fst (snd ?x)))"
    unfolding c example_stamp by simp
  from t have i: "is_timestamp (strftime ''%Y-%m-%d %H:%M:%S'' example_time)"
    unfolding c by blast
  from t have n: "clock_reads (snd (snd ?x)) = 2"
    by (simp add: example_world_def)
  from g v y s i n show ?thesis by simp
qed

text \<open>
  Claim C8. For two GET requests handled one after the other, each body carries, octet
  for octet, the timestamp of the reading taken while that request was rendered (the
  second and the fourth reading counted from the first request). The two timestamps
  differ exactly when the two readings do not fall in the same clock second, and for
  equal paths the two bodies differ exactly then.
\<close>

theorem sequential_timestamps:
  assumes "req_command r1 = ''GET''" and "req_command r2 = ''GET''"
    and "serve_forever doc [r1, r2] w = (out, w')"
    and "valid_datetime (clock w (clock_reads w + 1))" and "1000 \<le> year (clock w (clock_reads w + 1))"
    and "valid_datetime (clock w (clock_reads w + 3))" and "1000 \<le> year (clock w (clock_reads w + 3))"
  shows "map fst out = [None, None] \<and>
     map (\<lambda>x. wfile (snd x)) out =
       [utf8 (html (py_str (req_path r1))
                (strftime ''%Y-%m-%d %H:%M:%S'' (clock w (clock_reads w + 1)))),
        utf8 (html (py_str (req_path r2))
                (strftime ''%Y-%m-%d %H:%M:%S'' (clock w (clock_reads w + 3))))] \<and>
     map (\<lambda>x. wfile (snd x)) out =
       [utf8 (html_head @ py_str (req_path r1) @ html_mid) @
          spec_timestamp (clock w (clock_reads w + 1)) @ utf8 html_tail,
        utf8 (html_head @ py_str (req_path r2) @ html_mid) @
          spec_timestamp (clock w (clock_reads w + 3)) @ utf8 html_tail] \<and>
     sublist (''<p><strong>Time:</strong> '' @ spec_timestamp (clock w (clock_reads w + 1)) @ ''</p>'')
       (wfile (snd (out ! 0))) \<and>
     sublist (''<p><strong>Time:</strong> '' @ spec_timestamp (clock w (clock_reads w + 3)) @ ''</p>'')
       (wfile (snd (out ! 1))) \<and>
     (spec_timestamp (clock w (clock_reads w + 1)) \<noteq> spec_timestamp (clock w (clock_reads w + 3))
      \<longleftrightarrow> \<not> same_second (clock w (clock_reads w + 1)) (clock w (clock_reads w + 3))) \<and>
     (req_path r1 = req_path r2 \<longrightarrow>
        (wfile (snd (out ! 0)) \<noteq> wfile (snd (out ! 1))
         \<longleftrightarrow> \<not> same_second (clock w (clock_reads w + 1)) (clock w (clock_reads w + 3)))) \<and>
     (strftime ''%Y-%m-%d %H:%M:%S'' (clock w (clock_reads w + 1)) \<noteq>
      strftime ''%Y-%m-%d %H:%M:%S'' (clock w (clock_reads w + 3))
      \<longleftrightarrow> \<not> same_second (clock w (clock_reads w + 1)) (clock w (clock_reads w + 3)))"
proof -
  let ?d1 = "clock w (clock_reads w + 1)" and ?d2 = "clock w (clock_reads w + 3)"
  let ?b1 = "utf8 (html (py_str (req_path r1)) (strftime ''%Y-%m-%d %H:%M:%S'' ?d1))"
  let ?b2 = "utf8 (html (py_str (req_path r2)) (strftime ''%Y-%m-%d %H:%M:%S'' ?d2))"
  obtain w1 where h1: "handle_one_request doc r1 w = (None,
      fst (snd (handle_one_request doc r1 w)), w1)"
    and c1: "clock w1 = clock w" and n1: "clock_reads w1 = clock_reads w + 2"
    using handle_GET[OF assms(1), of doc w] by simp
  have b1: "wfile (fst (snd (handle_one_request doc r1 w))) = ?b1"
    using handle_GET[OF assms(1), of doc w] by simp
  obtain w2 where h2: "handle_one_request doc r2 w1 = (None,
      fst (snd (handle_one_request doc r2 w1)), w2)"
    using handle_GET[OF assms(2), of doc w1] by simp
  have b2: "wfile (fst (snd (handle_one_request doc r2 w1))) = ?b2"
    using handle_GET[OF assms(2), of doc w1] by (simp add: c1 n1 numeral_3_eq_3)
  have "serve_forever doc [r1, r2] w =
      ([(None, fst (snd (handle_one_request doc r1 w))),
        (None, fst (snd (handle_one_request doc r2 w1)))], w2)"
    by (subst serve_forever.simps, subst h1, simp, subst h2, simp)
  with assms(3) have out: "out = [(None, fst (snd (handle_one_request doc r1 w))),
        (None, fst (snd (handle_one_request doc r2 w1)))]"
    by simp
  have o1: "?b1 = utf8 (html_head @ py_str (req_path r1) @ html_mid) @ spec_timestamp ?d1 @
      utf8 html_tail"
    by (rule page_octets[OF assms(4,5)])
  have o2: "?b2 = utf8 (html_head @ py_str (req_path r2) @ html_mid) @ spec_timestamp ?d2 @
      utf8 html_tail"
    by (rule page_octets[OF assms(6,7)])
  have l1: "sublist (''<p><strong>Time:</strong> '' @ spec_timestamp ?d1 @ ''</p>'') ?b1"
    by (rule time_line_octets[OF assms(4,5)])
  have l2: "sublist (''<p><strong>Time:</strong> '' @ spec_timestamp ?d2 @ ''</p>'') ?b2"
    by (rule time_line_octets[OF assms(6,7)])
  have inj: "spec_timestamp ?d1 = spec_timestamp ?d2 \<longleftrightarrow> same_second ?d1 ?d2"
    by (rule spec_timestamp_inj[OF assms(4,5,6,7)])
  have same: "?b1 = ?b2 \<longleftrightarrow> same_second ?d1 ?d2" if "req_path r1 = req_path r2"
    unfolding o1 o2 using that inj by simp
  have w0: "wfile (snd (out ! 0)) = ?b1" and w1: "wfile (snd (out ! 1)) = ?b2"
    by (simp_all add: out b1 b2)
  have m: "map (\<lambda>x. wfile (snd x)) out = [?b1, ?b2]" by (simp add: out b1 b2)
  have f: "map fst out = [None, None]" by (simp add: out)
  show ?thesis
    unfolding w0 w1 m
    using f o1 o2 l1 l2 inj same strftime_inj[OF assms(4,5,6,7)]
    by (intro conjI impI) simp_all
qed

theorem sequential_timestamps_witness:
  "req_command get_root = ''GET'' \<and> req_command get_root_again = ''GET'' \<and>
   req_path get_root = req_path get_root_again \<and>
   valid_datetime (clock ticking_world (clock_reads ticking_world + 1)) \<and>
   1000 \<le> year (clock ticking_world (clock_reads ticking_world + 1)) \<and>
   valid_datetime (clock ticking_world (clock_reads ticking_world + 3)) \<and>
   1000 \<le> year (clock ticking_world (clock_reads ticking_world + 3)) \<and>
   sublist ''<p><strong>Time:</strong> 2024-01-02 03:04:01</p>''
     (wfile (snd (fst (serve_forever no_document [get_root, get_root_again] ticking_world) ! 0))) \<and>
   sublist ''<p><strong>Time:</strong> 2024-01-02 03:04:03</p>''
     (wfile (snd (fst (serve_forever no_document [get_root, get_root_again] ticking_world) ! 1))) \<and>
   wfile (snd (fst (serve_forever no_document [get_root, get_root_again] ticking_world) ! 0)) \<noteq>
   wfile (snd (fst (serve_forever no_document [get_root, get_root_again] ticking_world) ! 1))"
proof -
  let ?out = "fst (serve_forever no_document [get_root, get_root_again] ticking_world)"
  have g: "req_command get_root = ''GET''" "req_command get_root_again = ''GET''"
    and p: "req_path get_root = req_path get_root_again"
    by (simp_all add: get_root_def get_root_again_def)
  have c1: "clock ticking_world (clock_reads ticking_world + 1) = ticking_clock 1"
    and c3: "clock ticking_world (clock_reads ticking_world + 3) = ticking_clock 3"
    by (simp_all add: ticking_world_def)
  have v: "valid_datetime (clock ticking_world (clock_reads ticking_world + 1))"
    "1000 \<le> year (clock ticking_world (clock_reads ticking_world + 1))"
    "valid_datetime (clock ticking_world (clock_reads ticking_world + 3))"
    "1000 \<le> year (clock ticking_world (clock_reads ticking_world + 3))"
    using ticking_clock_valid[of 1] ticking_clock_valid[of 3] unfolding c1 c3 by blast+
  have h: "serve_forever no_document [get_root, get_root_again] ticking_world =
      (?out, snd (serve_forever no_document [get_root, get_root_again] ticking_world))"
    by simp
  note t = sequential_timestamps[OF g h v]
  have ns: "\<not> same_second (ticking_clock 1) (ticking_clock 3)"
    by (simp add: same_second_def ticking_clock_def)
  from t have "sublist (''<p><strong>Time:</strong> '' @
      spec_timestamp (clock ticking_world (clock_reads ticking_world + 1)) @ ''</p>'')
      (wfile (snd (?out ! 0)))"
    by blast
  then have s1: "sublist ''<p><strong>Time:</strong> 2024-01-02 03:04:01</p>'' (wfile (snd (?out ! 0)))"
    unfolding c1 ticking_stamp_1 by simp
  from t have "sublist (''<p><strong>Time:</strong> '' @
      spec_timestamp (clock ticking_world (clock_reads ticking_world + 3)) @ ''</p>'')
      (wfile (snd (?out ! 1)))"
    by blast
  then have s3: "sublist ''<p><strong>Time:</strong> 2024-01-02 03:04:03</p>'' (wfile (snd (?out ! 1)))"
    unfolding c3 ticking_stamp_3 by simp
  from t p have "wfile (snd (?out ! 0)) \<noteq> wfile (snd (?out ! 1))
      \<longleftrightarrow> \<not> same_second (clock ticking_world (clock_reads ticking_world + 1))
            (clock ticking_world (clock_reads ticking_world + 3))"
    by blast
  with ns have d: "wfile (snd (?out ! 0)) \<noteq> wfile (snd (?out ! 1))"
    unfolding c1 c3 by simp
  from g p v s1 s3 d show ?thesis by simp
qed

text \<open>
  Claim C9. The response to a GET request is a function of the path and of the clock
  value read while rendering: two GET requests with the same path, rendered at equal
  readings, get the same exception status, code, headers and body, whatever their
  headers, bodies, clients and protocol versions are and whatever was handled or
  printed before.
\<close>

theorem get_response_deterministic:
  assumes "req_command r1 = ''GET''" and "req_command r2 = ''GET''"
    and "req_path r1 = req_path r2"
    and "clock w1 (Suc (clock_reads w1)) = clock w2 (Suc (clock_reads w2))"
    and "handle_one_request doc1 r1 w1 = (e1, self1, w1')"
    and "handle_one_request doc2 r2 w2 = (e2, self2, w2')"
  shows "e1 = e2 \<and> response_code self1 = response_code self2 \<and>
     response_headers self1 = response_headers self2 \<and>
     headers_ended self1 = headers_ended self2 \<and> wfile self1 = wfile self2"
  using handle_GET[OF assms(1), of doc1 w1] handle_GET[OF assms(2), of doc2 w2] assms(3-)
  by auto

theorem get_response_deterministic_witness:
  "req_command get_root = ''GET'' \<and> req_command get_root_again = ''GET'' \<and>
   req_path get_root = req_path get_root_again \<and>
   req_headers get_root \<noteq> req_headers get_root_again \<and>
   req_body get_root \<noteq> req_body get_root_again \<and>
   req_client get_root \<noteq> req_client get_root_again \<and>
   stdout example_world \<noteq> stdout later_world \<and>
   clock example_world (Suc (clock_reads example_world)) =
     clock later_world (Suc (clock_reads later_world)) \<and>
   wfile (fst (snd (handle_one_request no_document get_root example_world))) =
     wfile (fst (snd (handle_one_request no_document get_root_again later_world))) \<and>
   response_headers (fst (snd (handle_one_request no_document get_root example_world))) =
     response_headers (fst (snd (handle_one_request no_document get_root_again later_world)))"
  using get_response_deterministic[of get_root get_root_again example_world later_world
      no_document
      "fst (handle_one_request no_document get_root example_world)"
      "fst (snd (handle_one_request no_document get_root example_world))"
      "snd (snd (handle_one_request no_document get_root example_world))"
      no_document
      "fst (handle_one_request no_document get_root_again later_world)"
      "fst (snd (handle_one_request no_document get_root_again later_world))"
      "snd (snd (handle_one_request no_document get_root_again later_world))"]
  by (simp add: get_root_def get_root_again_def example_world_def later_world_def
      steady_clock_def py_str_def)

section \<open>State across requests\<close>

text \<open>
  Claim C5. Handling requests, with any methods, leaves no state behind. After any list
  of requests each one has been handled without an exception, the clock and the host's
  ports are what they were (only the log has grown and the clock has been read), and a
  GET request handled next gets the same handler result, field for field, as the same
  request handled in any other world in which the rendering reads the same clock
  value; in particular in the world before those requests.
\<close>

theorem requests_leave_no_state:
  assumes "req_command g = ''GET''"
    and "serve_forever doc rs w = (out, w1)"
    and "clock w0 (Suc (clock_reads w0)) = clock w1 (Suc (clock_reads w1))"
    and "handle_one_request doc g w1 = (e1, self1, w1')"
    and "handle_one_request doc g w0 = (e0, self0, w0')"
  shows "list_all (\<lambda>(e, self). e = None) out \<and> clock w1 = clock w \<and> can_bind w1 = can_bind w \<and>
     e1 = None \<and> e1 = e0 \<and> self1 = self0"
  using serve_forever_frame[OF assms(2)] handle_GET[OF assms(1), of doc w1]
    handle_GET[OF assms(1), of doc w0] assms(3-)
  by auto

theorem requests_leave_no_state_witness:
  "req_command get_root = ''GET'' \<and> req_command post_root \<noteq> ''GET'' \<and>
   clock example_world (Suc (clock_reads example_world)) =
     clock (snd (serve_forever no_document [post_root] example_world))
       (Suc (clock_reads (snd (serve_forever no_document [post_root] example_world)))) \<and>
   fst (snd (handle_one_request no_document get_root
       (snd (serve_forever no_document [post_root] example_world)))) =
     fst (snd (handle_one_request no_document get_root example_world))"
  using requests_leave_no_state[of get_root no_document "[post_root]" example_world
      "fst (serve_forever no_document [post_root] example_world)"
      "snd (serve_forever no_document [post_root] example_world)"
      example_world
      "fst (handle_one_request no_document get_root
          (snd (serve_forever no_document [post_root] example_world)))"
      "fst (snd (handle_one_request no_document get_root
          (snd (serve_forever no_document [post_root] example_world))))"
      "snd (snd (handle_one_request no_document get_root
          (snd (serve_forever no_document [post_root] example_world))))"
      "fst (handle_one_request no_document get_root example_world)"
      "fst (snd (handle_one_request no_document get_root example_world))"
      "snd (snd (handle_one_request no_document get_root example_world))"]
    serve_forever_frame[of no_document "[post_root]" example_world
      "fst (serve_forever no_document [post_root] example_world)"
      "snd (serve_forever no_document [post_root] example_world)"]
  by (simp add: get_root_def post_root_def) (simp add: example_world_def steady_clock_def)

section \<open>Startup\<close>

text \<open>
  Claim C7. The entry point runs the server on port 8080, whatever the requests and the
  world are: the program reads no flag. When the port can be bound, the server's address
  is that port and two lines are printed before any request is served:
  \<^verbatim>\<open>Server running on http://localhost:8080\<close> and \<^verbatim>\<open>Press Ctrl+C to stop the server\<close>;
  with no request these two lines are all the output. \<^verbatim>\<open>run_server\<close> called with
  another port prints that port in the first line.
\<close>

theorem startup:
  assumes "can_bind w default_port"
  shows "main doc rs w =
     (Inr (\<lparr>server_address = ([], 8080)\<rparr>,
           fst (serve_forever doc rs
             (w\<lparr>stdout := stdout w @ py_str ''Server running on http://localhost:8080'' @ [10] @
                 py_str ''Press Ctrl+C to stop the server'' @ [10]\<rparr>))),
      snd (serve_forever doc rs
             (w\<lparr>stdout := stdout w @ py_str ''Server running on http://localhost:8080'' @ [10] @
                 py_str ''Press Ctrl+C to stop the server'' @ [10]\<rparr>))) \<and>
     stdout (snd (main doc [] w)) =
       stdout w @ py_str ''Server running on http://localhost:8080'' @ [10] @
       py_str ''Press Ctrl+C to stop the server'' @ [10] \<and>
     (0 \<le> port \<and> port \<le> 65535 \<and> can_bind w port \<longrightarrow>
        stdout (snd (run_server doc port [] w)) =
          stdout w @ py_str ''Server running on http://localhost:'' @ str_int port @ [10] @
          py_str ''Press Ctrl+C to stop the server'' @ [10])"
  using assms
  by (simp add: main_def run_server_def HTTPServer_def default_port_def print_def
      str_int_8080 py_str_append[symmetric] split: prod.split)

theorem startup_witness:
  "can_bind example_world default_port \<and>
   stdout (snd (main no_document [] example_world)) =
     py_str ''Server running on http://localhost:8080\<newline>Press Ctrl+C to stop the server\<newline>''"
  using startup[of example_world no_document "[]" 8080]
  by (simp add: example_world_def any_port_def py_str_def)

section \<open>The log\<close>

text \<open>
  Claim C4, as amended. Every GET request that the base class dispatches to the handler,
  its request line holding no newline (the base class reads it as one line) and the
  clock showing a valid date of a year of four digits, produces exactly one log line on
  standard output: \<^verbatim>\<open>[<timestamp>] "<request line>" 200 -\<close> and a newline, where the
  timestamp is the reading as \<^verbatim>\<open>YYYY-MM-DD HH:MM:SS\<close> and the rest is the base class's
  format \<^verbatim>\<open>"%s" %s %s\<close> interpolated with its arguments, the request line, \<^verbatim>\<open>200\<close>
  and \<^verbatim>\<open>-\<close>. Standard output grows by this text and so by one newline.
\<close>

theorem log_lines:
  assumes "req_command r = ''GET''"
    and "CHR 0x0A \<notin> set (req_line r)"
    and "handle_one_request doc r w = (e, self, w')"
    and "valid_datetime (clock w (clock_reads w))"
    and "1000 \<le> year (clock w (clock_reads w))"
  shows "stdout w' =
       stdout w @
       py_str (''['' @ spec_timestamp (clock w (clock_reads w)) @ ''] '' @
               [CHR 0x22] @ req_line r @ [CHR 0x22] @ '' 200 -'') @ [10] \<and>
     10 \<notin> set (py_str (''['' @ spec_timestamp (clock w (clock_reads w)) @ ''] '' @
                       [CHR 0x22] @ req_line r @ [CHR 0x22] @ '' 200 -'')) \<and>
     count_list (stdout w') 10 = count_list (stdout w) 10 + 1 \<and>
     py_format (py_str [CHR 0x22, CHR ''%'', CHR ''s'', CHR 0x22, CHR '' '', CHR ''%'', CHR ''s'',
                        CHR '' '', CHR ''%'', CHR ''s''])
       [PyStr (py_str (req_line r)), PyStr (py_str ''200''), PyStr (py_str ''-'')] =
       Inr (py_str ([CHR 0x22] @ req_line r @ [CHR 0x22] @ '' 200 -'')) \<and>
     is_timestamp (py_str (spec_timestamp (clock w (clock_reads w))))"
proof -
  let ?d = "clock w (clock_reads w)"
  let ?line = "py_str (''['' @ spec_timestamp ?d @ ''] '' @
               [CHR 0x22] @ req_line r @ [CHR 0x22] @ '' 200 -'')"
  have d200: "decimal 200 = py_str ''200''"
    by (simp add: decimal.simps py_str_def)
  have st: "strftime ''%Y-%m-%d %H:%M:%S'' ?d = py_str (spec_timestamp ?d)"
    by (rule strftime_spec[OF assms(4,5)])
  from handle_GET[OF assms(1), of doc w] assms(3)
  have "stdout w' = stdout w @ py_str ''['' @ strftime ''%Y-%m-%d %H:%M:%S'' ?d @
      py_str [CHR '']'', CHR '' '', CHR 0x22] @ py_str (req_line r) @
      py_str [CHR 0x22, CHR '' ''] @ decimal 200 @ py_str '' -'' @ [10]"
    by auto
  then have out: "stdout w' = stdout w @ ?line @ [10]"
    unfolding st d200 by (simp add: py_str_def)
  have "10 \<notin> set (py_str (req_line r))"
    by (rule py_str_newline[OF assms(2)])
  moreover have "10 \<notin> set (py_str (spec_timestamp ?d))"
    using strftime_no_newline[of ?d] unfolding st .
  ultimately have nl: "10 \<notin> set ?line"
    by (simp add: py_str_def)
  then have "count_list ?line 10 = 0" by (simp add: count_list_0_iff)
  then have cnt: "count_list (stdout w') 10 = count_list (stdout w) 10 + 1"
    unfolding out by simp
  have fmt: "py_format (py_str [CHR 0x22, CHR ''%'', CHR ''s'', CHR 0x22, CHR '' '', CHR ''%'',
                        CHR ''s'', CHR '' '', CHR ''%'', CHR ''s''])
       [PyStr (py_str (req_line r)), PyStr (py_str ''200''), PyStr (py_str ''-'')] =
       Inr (py_str ([CHR 0x22] @ req_line r @ [CHR 0x22] @ '' 200 -''))"
    by (simp add: py_str_def)
  from is_timestamp_strftime[OF assms(4,5)]
  have ts: "is_timestamp (py_str (spec_timestamp ?d))" unfolding st .
  from out nl cnt fmt ts show ?thesis by blast
qed

theorem log_lines_witness:
  "req_command get_root = ''GET'' \<and> CHR 0x0A \<notin> set (req_line get_root) \<and>
   valid_datetime (clock example_world (clock_reads example_world)) \<and>
   1000 \<le> year (clock example_world (clock_reads example_world)) \<and>
   stdout (snd (snd (handle_one_request no_document get_root example_world))) =
     py_str ''[2024-01-02 03:04:05] \"GET / HTTP/1.1\" 200 -'' @ [10] \<and>
   count_list (stdout (snd (snd (handle_one_request no_document get_root example_world)))) 10 = 1"
proof -
  let ?x = "handle_one_request no_document get_root example_world"
  have g: "req_command get_root = ''GET''" and l: "CHR 0x0A \<notin> set (req_line get_root)"
    by (simp_all add: get_root_def)
  have c: "clock example_world (clock_reads example_world) = example_time"
    by (simp add: example_world_def steady_clock_def)
  have v: "valid_datetime (clock example_world (clock_reads example_world))"
    and y: "1000 \<le> year (clock example_world (clock_reads example_world))"
    using example_time_valid unfolding c by blast+
  have h: "?x = (fst ?x, fst (snd ?x), snd (snd ?x))" by simp
  note t = log_lines[OF g l h v y]
  from t have "stdout (snd (snd ?x)) = stdout example_world @
      py_str (''['' @ spec_timestamp (clock example_world (clock_reads example_world)) @ ''] '' @
              [CHR 0x22] @ req_line get_root @ [CHR 0x22] @ '' 200 -'') @ [10]"
    by blast
  then have s: "stdout (snd (snd ?x)) = py_str ''[2024-01-02 03:04:05] \"GET / HTTP/1.1\" 200 -'' @ [10]"
    unfolding c example_stamp by (simp add: example_world_def get_root_def)
  from t have "count_list (stdout (snd (snd ?x))) 10 = count_list (stdout example_world) 10 + 1"
    by blast
  then have n: "count_list (stdout (snd (snd ?x))) 10 = 1"
    by (simp add: example_world_def)
  from g l v y s n show ?thesis by simp
qed

text \<open>
  The counterexample to claim C4 as stated, which speaks of every handled request: a
  POST request. \<^verbatim>\<open>send_error\<close> calls \<^verbatim>\<open>log_error\<close> and then \<^verbatim>\<open>send_response\<close>,
  which calls \<^verbatim>\<open>log_request\<close>; both reach \<^verbatim>\<open>log_message\<close>, so the request leaves two
  lines on standard output.
\<close>

theorem unsupported_method_logs_twice:
  "stdout (snd (snd (handle_one_request no_document post_root example_world))) =
     py_str ''[2024-01-02 03:04:05] code 501, message Unsupported method ('' @ [39] @
     py_str ''POST'' @ [39] @ py_str '')'' @ [10] @
     py_str ''[2024-01-02 03:04:05] \"POST / HTTP/1.1\" 501 -'' @ [10] \<and>
   count_list (stdout (snd (snd (handle_one_request no_document post_root example_world)))) 10 = 2"
proof -
  have t: "strftime ''%Y-%m-%d %H:%M:%S'' example_time = py_str ''2024-01-02 03:04:05''"
    by (simp add: strftime_unfold example_time_def zfill_def decimal.simps py_str_def)
  have r: "py_repr ''POST'' = [CHR 0x27] @ ''POST'' @ [CHR 0x27]"
    by (simp add: py_repr_def repr_quote_def repr_char_def repr_printable_def Let_def)
  have c: "req_command post_root \<noteq> ''GET''" by (simp add: post_root_def)
  have s: "stdout (snd (snd (handle_one_request no_document post_root example_world))) =
     py_str ''[2024-01-02 03:04:05] code 501, message Unsupported method ('' @ [39] @
     py_str ''POST'' @ [39] @ py_str '')'' @ [10] @
     py_str ''[2024-01-02 03:04:05] \"POST / HTTP/1.1\" 501 -'' @ [10]"
    using handle_other[OF c, of no_document example_world]
    by (auto simp: post_root_def r example_world_def steady_clock_def t)
       (simp add: py_str_def str_int_def decimal.simps)
  show ?thesis unfolding s by (simp add: py_str_def)
qed

section \<open>Totality of the handler\<close>

text \<open>
  Claim C10. The GET handler is total over its path: for every path the base class can
  set, which is any string of ISO-8859-1 characters, the empty one and those with
  characters outside ASCII included, \<^verbatim>\<open>do_GET\<close> raises nothing, the encoding of the
  page succeeds, and the result is the 200 page: code 200, the content type header, and
  a body that holds the title element and the path line with the path in UTF-8, a
  character from U+0080 on as two octets.
\<close>

theorem do_GET_total:
  "fst (do_GET (SimpleHandler r) w) = None \<and>
   response_code (fst (snd (do_GET (SimpleHandler r) w))) = Some 200 \<and>
   response_headers (fst (snd (do_GET (SimpleHandler r) w))) =
     [(py_str ''Content-type'', py_str ''text/html'')] \<and>
   encode (html (py_str (req_path r))
             (strftime ''%Y-%m-%d %H:%M:%S'' (clock w (Suc (clock_reads w))))) =
     Inr (wfile (fst (snd (do_GET (SimpleHandler r) w)))) \<and>
   sublist ''<title>Simple HTTP Server</title>'' (wfile (fst (snd (do_GET (SimpleHandler r) w)))) \<and>
   sublist (''<p><strong>Path:</strong> '' @ spec_utf8_latin1 (req_path r) @ ''</p>'')
     (wfile (fst (snd (do_GET (SimpleHandler r) w))))"
proof -
  let ?t = "strftime ''%Y-%m-%d %H:%M:%S'' (clock w (Suc (clock_reads w)))"
  let ?page = "html (py_str (req_path r)) ?t"
  have p: "list_all encodable (path (SimpleHandler r))"
    by (simp add: SimpleHandler_def encodable_py_str)
  have enc: "list_all encodable ?page"
    by (simp add: html_def encodable_head encodable_mid encodable_tail strftime_encodable
        encodable_py_str)
  from do_GET_ok[OF p, of w]
  have e: "fst (do_GET (SimpleHandler r) w) = None"
    and c: "response_code (fst (snd (do_GET (SimpleHandler r) w))) = Some 200"
    and h: "response_headers (fst (snd (do_GET (SimpleHandler r) w))) =
       [(py_str ''Content-type'', py_str ''text/html'')]"
    and b: "wfile (fst (snd (do_GET (SimpleHandler r) w))) = utf8 ?page"
    by (simp_all add: SimpleHandler_def)
  show ?thesis
    unfolding b using e c h encode_encodable[OF enc] title_octets[of "py_str (req_path r)" ?t]
      path_line_octets[of "req_path r" ?t]
    by (simp add: b)
qed

theorem do_GET_total_witness:
  "fst (do_GET (SimpleHandler get_empty_path) example_world) = None \<and>
   sublist ''<p><strong>Path:</strong> </p>''
     (wfile (fst (snd (do_GET (SimpleHandler get_empty_path) example_world)))) \<and>
   fst (do_GET (SimpleHandler get_accented) example_world) = None \<and>
   sublist (''<p><strong>Path:</strong> /'' @ [CHR 0xC3, CHR 0xA9] @ ''</p>'')
     (wfile (fst (snd (do_GET (SimpleHandler get_accented) example_world))))"
proof -
  note a = do_GET_total[of get_empty_path example_world]
  note b = do_GET_total[of get_accented example_world]
  have pe: "req_path get_empty_path = []" by (simp add: get_empty_path_def)
  have pa: "req_path get_accented = [CHR ''/'', CHR 0xE9]" by (simp add: get_accented_def)
  from a have e1: "fst (do_GET (SimpleHandler get_empty_path) example_world) = None" by blast
  from a have "sublist (''<p><strong>Path:</strong> '' @ spec_utf8_latin1 (req_path get_empty_path) @ ''</p>'')
      (wfile (fst (snd (do_GET (SimpleHandler get_empty_path) example_world))))"
    by blast
  then have s1: "sublist ''<p><strong>Path:</strong> </p>''
      (wfile (fst (snd (do_GET (SimpleHandler get_empty_path) example_world))))"
    unfolding pe by (simp add: spec_utf8_latin1_def)
  from b have e2: "fst (do_GET (SimpleHandler get_accented) example_world) = None" by blast
  from b have "sublist (''<p><strong>Path:</strong> '' @ spec_utf8_latin1 (req_path get_accented) @ ''</p>'')
      (wfile (fst (snd (do_GET (SimpleHandler get_accented) example_world))))"
    by blast
  then have s2: "sublist (''<p><strong>Path:</strong> /'' @ [CHR 0xC3, CHR 0xA9] @ ''</p>'')
      (wfile (fst (snd (do_GET (SimpleHandler get_accented) example_world))))"
    unfolding pa latin1_accented by simp
  from e1 s1 e2 s2 show ?thesis by blast
qed

end
